theory Spec2Isabelle
  imports Complex_Main
begin

section \<open>Pricing: the service charge\<close>

text \<open>
  JavaScript numbers are modelled as real numbers: the arithmetic is read as exact
  arithmetic. The constant \<open>0.055\<close> is the rational \<open>55/1000\<close>.

  \<^verbatim>\<open>
  export function calculateServiceCharge(subtotal: number): number {
    const rawCharge = (subtotal * 0.055) + 100;
    return Math.min(rawCharge, 2000); // Cap at 2000
  }
  \<close>
\<close>

definition calculateServiceCharge :: "real \<Rightarrow> real" where
  "calculateServiceCharge subtotal =
     (let rawCharge = (subtotal * (55 / 1000)) + 100
      in min rawCharge 2000)"

text \<open>
  The repository also holds the earlier version of this function, 5.5 percent of the
  subtotal capped at 500, without the base fee of 100:
  \<^verbatim>\<open>
  export function calculateServiceCharge(subtotal: number): number {
    const rawCharge = subtotal * 0.055;
    return Math.min(rawCharge, 500); // Cap at 500
  }
  \<close>
  The test suite \<^verbatim>\<open>fees.utils.test.ts\<close>, the note on the update of the service
  charge and the settlement handler are written against the version above, which
  replaced it.
\<close>

definition calculateServiceCharge_previous :: "real \<Rightarrow> real" where
  "calculateServiceCharge_previous subtotal =
     (let rawCharge = subtotal * (55 / 1000)
      in min rawCharge 500)"

section \<open>Data model\<close>

text \<open>
  JavaScript numbers are modelled as real numbers (the arithmetic of the ledger is read
  as exact arithmetic), points and counters as integers, instants as milliseconds since
  the epoch. A field that a document may lack is an \<open>option\<close>; the source reads such a
  field with \<^verbatim>\<open>x || 0\<close> or \<^verbatim>\<open>x ?? 0\<close>, which is \<open>orZero\<close> below (on numbers the two
  agree, since \<^verbatim>\<open>0 || 0\<close> is \<open>0\<close>). An array field that is absent is the empty list: the
  source reads it with \<^verbatim>\<open>|| []\<close> and \<^verbatim>\<open>arrayUnion\<close> creates it.
\<close>

type_synonym timestamp = int

definition orZero :: "real option \<Rightarrow> real" where
  "orZero x = (case x of None \<Rightarrow> 0 | Some v \<Rightarrow> v)"

subsection \<open>Errors\<close>

text \<open>
  \<^verbatim>\<open>new HttpsError(code, message, details)\<close> and any other thrown JavaScript error
  (a failed HTTP request, a missing secret key, a failed commit).
\<close>

datatype code = InvalidArgument | NotFound | AlreadyExists | FailedPrecondition
  | PermissionDenied | DeadlineExceeded | Internal

datatype error = HttpsError code string "error option" | JsError string

fun error_code :: "error \<Rightarrow> code option" where
  "error_code (HttpsError c m d) = Some c"
| "error_code (JsError m) = None"

subsection \<open>Orders\<close>

record OrderItem =
  productId :: string
  itemName :: string
  quantity :: real
  price :: real

record IncomingOrder =
  orderId :: string
  userId :: string
  vendorId :: string
  vendorCategory :: string
  items :: "OrderItem list"
  subtotal :: real
  deliveryFee :: real
  serviceFee :: real
  vendorCommission :: real
  vendorEarnings :: real
  totalAmountPaid :: real
  deliveryType :: string
  deliveryAddress :: string
  orderCutoffTime :: string
  vendorNote :: "string option"
  paymentReference :: string
  paymentStatus :: string
  orderStatus :: string
  createdAt :: timestamp
  updatedAt :: timestamp
  appliedRewardType :: "string option"
  rewardDiscountAmount :: "real option"
  originalTotalBeforeReward :: "real option"
  platformDebtAmount :: "real option"
  platformDebtType :: "string option"
  platformDebtSettled :: "bool option"

record TimelineEntry =
  tl_status :: string
  tl_timestamp :: timestamp
  tl_actor :: string

text \<open>
  A document of the \<open>orders\<close> collection: the incoming order as the settlement persists
  it, and the fields that the delivery handlers add to it later. Every persisted order
  has its \<open>vendorEarnings\<close>, so the default of \<^verbatim>\<open>orderData?.vendorEarnings ?? 0\<close> is
  never taken.
\<close>

record OrderDoc = IncomingOrder +
  deliveryCode :: "string option"
  deliveryCodeExpiresAt :: "timestamp option"
  deliveryConfirmed :: "bool option"
  reviewed :: "bool option"
  timeline :: "TimelineEntry list"

subsection \<open>Wallets and users\<close>

record RewardFields =
  rw_appliedRewardType :: string
  rw_rewardDiscountAmount :: "real option"
  rw_originalTotalBeforeReward :: "real option"
  rw_platformDebtAmount :: "real option"
  rw_platformDebtType :: "string option"
  rw_platformDebtSettled :: bool

record OrderFields =
  tx_totalPaid :: real
  tx_orderId :: string
  tx_subtotal :: real
  tx_deliveryFee :: real
  tx_serviceFee :: real
  tx_vendorCommission :: real
  tx_vendorEarnings :: real
  tx_commissionRate :: real
  tx_reward :: "RewardFields option"

text \<open>
  An entry of \<open>wallet.transactions\<close>. The fields every entry has are fields of the
  record; the fields that only the entry of an order has are \<open>tx_order\<close>.
\<close>

record LedgerEntry =
  tx_amount :: real
  tx_reference :: string
  tx_status :: string
  tx_type :: string
  tx_source :: string
  tx_vendorId :: "string option"
  tx_userId :: "string option"
  tx_createdAt :: timestamp
  tx_order :: "OrderFields option"

record Wallet =
  balance :: "real option"
  pendingBalance :: "real option"
  eligibleBalance :: "real option"
  transactions :: "LedgerEntry list"

record PaymentInfo =
  accountNumber :: string
  accountName :: string
  bankCode :: string

text \<open>
  A document of the \<open>users\<close> collection (vendors and customers). The source reads the
  wallet as \<^verbatim>\<open>userData?.wallet || {}\<close>: a user without a wallet is a user whose wallet
  has no field. \<open>monthlySales\<close> is \<open>stats.monthlySales\<close>, from month key to revenue.
\<close>

record UserDoc =
  wallet :: Wallet
  monthlySales :: "string \<rightharpoonup> real"
  paymentInfo :: "PaymentInfo option"
  user_updatedAt :: "timestamp option"

subsection \<open>Withdrawal and refund requests\<close>

record WithdrawalRequest =
  wd_vendorId :: string
  wd_amount :: real
  wd_bankName :: string
  wd_bankCode :: string
  wd_accountNumber :: string
  wd_accountName :: string
  wd_status :: string
  wd_requestedAt :: timestamp
  wd_transferReference :: "string option"
  wd_approvedAt :: "timestamp option"
  wd_rejectionReason :: "string option"
  wd_reviewedAt :: "timestamp option"

record RefundRequest =
  rf_orderId :: string
  rf_userId :: string
  rf_vendorId :: string
  rf_amount :: real
  rf_subtotal :: real
  rf_deliveryFee :: real
  rf_serviceFee :: "real option"
  rf_vendorEarnings :: real
  rf_totalPaid :: real
  rf_reason :: string
  rf_status :: string
  rf_createdAt :: timestamp
  rf_transferReference :: "string option"
  rf_approvedAt :: "timestamp option"

subsection \<open>Referrals\<close>

record ReferralHistory =
  referredCustomerId :: string
  pointsEarned :: int
  date :: timestamp
  rh_orderId :: "string option"

record ReferralModel =
  ref_vendorId :: string
  storeName :: string
  vendorLogoUrl :: string
  totalReferralPoints :: int
  weeklyReferralPoints :: int
  referralCode :: string
  referredCustomersCount :: int
  successfulReferralsCount :: int
  referralHistory :: "ReferralHistory list"
  lastReferralUpdate :: timestamp
  isActive :: bool
  totalRewardsClaimed :: int
  lastLeaderboardPosition :: int
  totalFeaturedSpots :: int

record VendorDoc =
  vendorName :: string
  logoUrl :: "string option"
  vendorReferralCode :: "string option"

subsection \<open>The document store\<close>

record Store =
  orders :: "string \<rightharpoonup> OrderDoc"
  users :: "string \<rightharpoonup> UserDoc"
  refundRequests :: "string \<rightharpoonup> RefundRequest"
  withdrawalRequest :: "string \<rightharpoonup> WithdrawalRequest"
  referrals :: "string \<rightharpoonup> ReferralModel"
  vendors :: "string \<rightharpoonup> VendorDoc"

section \<open>The environment: clock, secrets, payout gateway\<close>

text \<open>
  What the handlers take from outside the store. \<open>now\<close> is \<^verbatim>\<open>new Date()\<close> (and the
  server timestamp), \<open>monthKey\<close> is \<^verbatim>\<open>getCurrentMonthKey()\<close>, the year and month of
  \<open>now\<close> in the local time zone, such as \<open>2025-05\<close>.
\<close>

record Clock =
  now :: timestamp
  monthKey :: string

record Env =
  PAYSTACK_LIVE_SECRET_KEY :: "string option"
  PAYSTACK_TEST_SECRET_KEY :: "string option"

record Headers =
  Authorization :: string
  ContentType :: string

definition getPaystackHeaders :: "Env \<Rightarrow> bool \<Rightarrow> error + Headers" where
  "getPaystackHeaders env isLive =
     (let secretKey = (if isLive then PAYSTACK_LIVE_SECRET_KEY env
                       else PAYSTACK_TEST_SECRET_KEY env)
      in case secretKey of
           None \<Rightarrow> Inl (JsError ''Paystack secret key not set'')
         | Some k \<Rightarrow>
             if k = [] then Inl (JsError ''Paystack secret key not set'')
             else Inr \<lparr>Authorization = ''Bearer '' @ k, ContentType = ''application/json''\<rparr>)"

definition calculateAmount :: "real \<Rightarrow> real" where
  "calculateAmount amountInNaira = amountInNaira * 100"

record Recipient =
  rc_type :: string
  rc_name :: string
  rc_account_number :: string
  rc_bank_code :: string
  rc_currency :: string

text \<open>The reason of a transfer is a template string over the amount or the order id.\<close>

datatype TransferReason = VendorWithdrawalFor real | RefundForOrder string

record TransferBody =
  tr_source :: string
  tr_amount :: real
  tr_recipient :: string
  tr_reason :: TransferReason

text \<open>
  The payout gateway, reached with \<^verbatim>\<open>axios.post\<close>: creating a transfer recipient
  answers with a recipient code, a transfer answers with its reference. \<open>None\<close> is a
  request that fails, where \<^verbatim>\<open>axios.post\<close> throws.
\<close>

record Gateway =
  transferrecipient :: "Headers \<Rightarrow> Recipient \<Rightarrow> string option"
  transfer :: "Headers \<Rightarrow> TransferBody \<Rightarrow> string option"

section \<open>Transactions of the document store\<close>

text \<open>
  \<^verbatim>\<open>db.runTransaction(async (transaction) => { ... })\<close>. The update function reads
  documents with \<^verbatim>\<open>transaction.get\<close>, and its \<^verbatim>\<open>transaction.set\<close> and
  \<^verbatim>\<open>transaction.update\<close> are buffered: they are applied together when the function
  returns, and not at all when it throws. An \<^verbatim>\<open>update\<close> of a document that does not
  exist makes the commit fail. The update function is modelled by the list of its
  effects in program order and the error it throws, if any.
\<close>

datatype Ref = OrderRef string | UserRef string | RefundRef string
  | WithdrawalRef string | ReferralRef string | VendorRef string

datatype Write =
    SetOrder string OrderDoc
  | UpdateOrder string "OrderDoc \<Rightarrow> OrderDoc"
  | UpdateUser string "UserDoc \<Rightarrow> UserDoc"
  | SetWithdrawal string WithdrawalRequest
  | UpdateWithdrawal string "WithdrawalRequest \<Rightarrow> WithdrawalRequest"
  | UpdateRefund string "RefundRequest \<Rightarrow> RefundRequest"
  | SetReferral string ReferralModel
  | UpdateReferral string "ReferralModel \<Rightarrow> ReferralModel"

datatype Effect = Get Ref | Post string | Put Write

type_synonym Tx = "Effect list \<times> error option"

definition throw :: "error \<Rightarrow> Tx" where
  "throw e = ([], Some e)"

definition finish :: Tx where
  "finish = ([], None)"

definition after :: "Effect \<Rightarrow> Tx \<Rightarrow> Tx" where
  "after e k = (e # fst k, snd k)"

definition tx_get :: "Ref \<Rightarrow> Tx \<Rightarrow> Tx" where
  "tx_get r k = after (Get r) k"

definition tx_put :: "Write \<Rightarrow> Tx \<Rightarrow> Tx" where
  "tx_put w k = after (Put w) k"

definition http_post :: "string \<Rightarrow> Tx \<Rightarrow> Tx" where
  "http_post url k = after (Post url) k"

fun apply_write :: "Write \<Rightarrow> Store \<Rightarrow> Store option" where
  "apply_write (SetOrder k d) s = Some (s\<lparr>orders := (orders s)(k \<mapsto> d)\<rparr>)"
| "apply_write (UpdateOrder k f) s =
     (case orders s k of None \<Rightarrow> None
      | Some d \<Rightarrow> Some (s\<lparr>orders := (orders s)(k \<mapsto> f d)\<rparr>))"
| "apply_write (UpdateUser k f) s =
     (case users s k of None \<Rightarrow> None
      | Some d \<Rightarrow> Some (s\<lparr>users := (users s)(k \<mapsto> f d)\<rparr>))"
| "apply_write (SetWithdrawal k d) s =
     Some (s\<lparr>withdrawalRequest := (withdrawalRequest s)(k \<mapsto> d)\<rparr>)"
| "apply_write (UpdateWithdrawal k f) s =
     (case withdrawalRequest s k of None \<Rightarrow> None
      | Some d \<Rightarrow> Some (s\<lparr>withdrawalRequest := (withdrawalRequest s)(k \<mapsto> f d)\<rparr>))"
| "apply_write (UpdateRefund k f) s =
     (case refundRequests s k of None \<Rightarrow> None
      | Some d \<Rightarrow> Some (s\<lparr>refundRequests := (refundRequests s)(k \<mapsto> f d)\<rparr>))"
| "apply_write (SetReferral k d) s = Some (s\<lparr>referrals := (referrals s)(k \<mapsto> d)\<rparr>)"
| "apply_write (UpdateReferral k f) s =
     (case referrals s k of None \<Rightarrow> None
      | Some d \<Rightarrow> Some (s\<lparr>referrals := (referrals s)(k \<mapsto> f d)\<rparr>))"

fun commit :: "Write list \<Rightarrow> Store \<Rightarrow> Store option" where
  "commit [] s = Some s"
| "commit (w # ws) s =
     (case apply_write w s of None \<Rightarrow> None | Some s' \<Rightarrow> commit ws s')"

fun writes_of :: "Effect list \<Rightarrow> Write list" where
  "writes_of [] = []"
| "writes_of (Put w # es) = w # writes_of es"
| "writes_of (Get r # es) = writes_of es"
| "writes_of (Post u # es) = writes_of es"

definition runTransaction :: "(Store \<Rightarrow> Tx) \<Rightarrow> Store \<Rightarrow> (error + unit) \<times> Store" where
  "runTransaction updateFunction s =
     (case updateFunction s of
        (effects, Some e) \<Rightarrow> (Inl e, s)
      | (effects, None) \<Rightarrow>
          (case commit (writes_of effects) s of
             None \<Rightarrow> (Inl (JsError ''NOT_FOUND: no document to update''), s)
           | Some s' \<Rightarrow> (Inr (), s')))"

text \<open>
  \<^verbatim>\<open>try { ... } catch (error) { throw new HttpsError(...) }\<close>: every error of the
  body is replaced by the error that the handler makes of it.
\<close>

definition catch :: "(error \<Rightarrow> error) \<Rightarrow> (error + 'a) \<times> Store \<Rightarrow> (error + 'a) \<times> Store" where
  "catch handler r =
     (case fst r of Inl e \<Rightarrow> (Inl (handler e), snd r) | Inr v \<Rightarrow> r)"

subsection \<open>What a transaction does, in order\<close>

text \<open>
  The events of one run of \<^verbatim>\<open>db.runTransaction\<close>: the transaction is opened, the
  update function reads, posts to the gateway and buffers writes, and the transaction is
  committed or rolled back.
\<close>

datatype Event = TxBegin | TxGet Ref | HttpPost string | TxPut Ref | TxCommit | TxRollback

fun target :: "Write \<Rightarrow> Ref" where
  "target (SetOrder k d) = OrderRef k"
| "target (UpdateOrder k f) = OrderRef k"
| "target (UpdateUser k f) = UserRef k"
| "target (SetWithdrawal k d) = WithdrawalRef k"
| "target (UpdateWithdrawal k f) = WithdrawalRef k"
| "target (UpdateRefund k f) = RefundRef k"
| "target (SetReferral k d) = ReferralRef k"
| "target (UpdateReferral k f) = ReferralRef k"

fun event_of :: "Effect \<Rightarrow> Event" where
  "event_of (Get r) = TxGet r"
| "event_of (Post u) = HttpPost u"
| "event_of (Put w) = TxPut (target w)"

definition transaction_events :: "(Store \<Rightarrow> Tx) \<Rightarrow> Store \<Rightarrow> Event list" where
  "transaction_events updateFunction s =
     (case updateFunction s of
        (effects, Some e) \<Rightarrow> TxBegin # map event_of effects @ [TxRollback]
      | (effects, None) \<Rightarrow>
          TxBegin # map event_of effects
            @ [case commit (writes_of effects) s of None \<Rightarrow> TxRollback | Some s' \<Rightarrow> TxCommit])"

section \<open>Orders: settlement and delivery confirmation\<close>

text \<open>
  The arguments of a callable are typed values. A string argument is falsy when it is
  empty and a number when it is 0, which is what the handlers' \<^verbatim>\<open>!x\<close> checks test.
\<close>

definition truthy :: "string option \<Rightarrow> bool" where
  "truthy x = (case x of None \<Rightarrow> False | Some v \<Rightarrow> v \<noteq> [])"

definition getCommissionRate :: "real \<Rightarrow> real" where
  "getCommissionRate sales =
     (if sales \<ge> 150000 then 3 / 100
      else if sales \<ge> 50000 then 5 / 100
      else 7 / 100)"

text \<open>\<^verbatim>\<open>FieldValue.arrayUnion(e)\<close> adds the element unless the array holds it already.\<close>

definition arrayUnion :: "'a list \<Rightarrow> 'a \<Rightarrow> 'a list" where
  "arrayUnion xs e = (if e \<in> set xs then xs else xs @ [e])"

text \<open>
  The reward fields that the ledger entry of an order carries when a reward was
  applied: \<^verbatim>\<open>...(order.appliedRewardType && { ... platformDebtSettled: false })\<close>.
\<close>

definition rewardFields :: "IncomingOrder \<Rightarrow> RewardFields option" where
  "rewardFields order =
     (case appliedRewardType order of
        None \<Rightarrow> None
      | Some t \<Rightarrow>
          if t = [] then None
          else Some \<lparr>rw_appliedRewardType = t,
                     rw_rewardDiscountAmount = rewardDiscountAmount order,
                     rw_originalTotalBeforeReward = originalTotalBeforeReward order,
                     rw_platformDebtAmount = platformDebtAmount order,
                     rw_platformDebtType = platformDebtType order,
                     rw_platformDebtSettled = False\<rparr>)"

text \<open>
  The entry names the four optional reward fields of the order, so one that the order
  lacks is \<^verbatim>\<open>undefined\<close> in the entry. The store refuses \<^verbatim>\<open>undefined\<close> as a value
  (the repository does not set \<^verbatim>\<open>ignoreUndefinedProperties\<close>): the
  \<^verbatim>\<open>transaction.update\<close> that is given such an entry throws. The persisted order is
  not concerned: \<^verbatim>\<open>...order\<close> copies only the fields that the order has.
\<close>

definition undefinedRewardField :: "IncomingOrder \<Rightarrow> bool" where
  "undefinedRewardField order =
     (truthy (appliedRewardType order)
      \<and> (rewardDiscountAmount order = None
         \<or> originalTotalBeforeReward order = None
         \<or> platformDebtAmount order = None
         \<or> platformDebtType order = None))"

text \<open>
  The document that \<^verbatim>\<open>transaction.set(orderRef, {...order, createdAt, updatedAt,
  ...(order.appliedRewardType && {platformDebtSettled: false})})\<close> writes. The two
  instants are converted to the store's timestamps, which the model does not tell apart
  from instants.
\<close>

definition orderDocument :: "IncomingOrder \<Rightarrow> OrderDoc" where
  "orderDocument order =
     IncomingOrder.extend
       (order\<lparr>platformDebtSettled :=
                 (if truthy (appliedRewardType order) then Some False
                  else platformDebtSettled order)\<rparr>)
       (OrderDoc.fields None None None None [])"

definition createOrderAndLogTransaction_tx ::
  "Clock \<Rightarrow> IncomingOrder \<Rightarrow> string \<Rightarrow> string \<Rightarrow> string \<Rightarrow> real \<Rightarrow> Store \<Rightarrow> Tx" where
  "createOrderAndLogTransaction_tx clock order uid reference status totalPaid s =
     tx_get (OrderRef (orderId order)) (tx_get (UserRef (vendorId order))
       (case orders s (orderId order) of
          Some orderDoc \<Rightarrow> throw (HttpsError AlreadyExists ''Order already exists.'' None)
        | None \<Rightarrow>
            (case users s (vendorId order) of
               None \<Rightarrow> throw (HttpsError NotFound ''Vendor not found.'' None)
             | Some userData \<Rightarrow>
                 (let currentBalance = orZero (balance (wallet userData));
                      currentPending = orZero (pendingBalance (wallet userData));
                      currentMonthSales = orZero (monthlySales userData (monthKey clock));
                      totalVendorRevenue = subtotal order + deliveryFee order;
                      commissionRate = getCommissionRate currentMonthSales;
                      flatCommission = 0;
                      commission = flatCommission;
                      earnings = totalVendorRevenue - commission;
                      newMonthSales = currentMonthSales + totalVendorRevenue;
                      order' = order\<lparr>vendorCommission := commission, vendorEarnings := earnings\<rparr>;
                      newBalance = currentBalance + earnings;
                      newPendingBalance = currentPending + earnings;
                      transactionEntry =
                        \<lparr>tx_amount = earnings,
                         tx_reference = reference,
                         tx_status = status,
                         tx_type = ''credit'',
                         tx_source = ''order'',
                         tx_vendorId = Some (vendorId order'),
                         tx_userId = Some uid,
                         tx_createdAt = now clock,
                         tx_order = Some
                           \<lparr>tx_totalPaid = totalPaid,
                            tx_orderId = orderId order',
                            tx_subtotal = subtotal order',
                            tx_deliveryFee = deliveryFee order',
                            tx_serviceFee = serviceFee order',
                            tx_vendorCommission = vendorCommission order',
                            tx_vendorEarnings = vendorEarnings order',
                            tx_commissionRate = commissionRate,
                            tx_reward = rewardFields order'\<rparr>\<rparr>
                  in tx_put (SetOrder (orderId order) (orderDocument order'))
                       (if undefinedRewardField order'
                        then throw (JsError ''Cannot use undefined as a Firestore value'')
                        else
                          tx_put (UpdateUser (vendorId order)
                            (\<lambda>u. u\<lparr>wallet := (wallet u)
                                       \<lparr>balance := Some newBalance,
                                        pendingBalance := Some newPendingBalance,
                                        transactions :=
                                          arrayUnion (transactions (wallet u)) transactionEntry\<rparr>,
                                     monthlySales :=
                                       (monthlySales u)(monthKey clock \<mapsto> newMonthSales),
                                     user_updatedAt := Some (now clock)\<rparr>))
                            finish)))))"

text \<open>
  The total that the customer must have paid: the sum of subtotal, delivery fee and
  service fee, or the total before the reward when a reward was applied
  (\<^verbatim>\<open>order.appliedRewardType && order.originalTotalBeforeReward !== undefined\<close>).
\<close>

definition expectedTotal :: "IncomingOrder \<Rightarrow> real" where
  "expectedTotal order =
     (case originalTotalBeforeReward order of
        Some originalTotal \<Rightarrow>
          if truthy (appliedRewardType order) then originalTotal
          else subtotal order + deliveryFee order + serviceFee order
      | None \<Rightarrow> subtotal order + deliveryFee order + serviceFee order)"

text \<open>
  The callable \<^verbatim>\<open>createOrderAndLogTransaction\<close>. The checks before \<^verbatim>\<open>try\<close> throw
  \<open>invalid-argument\<close> as it is; every error of the transaction is caught and thrown again
  as \<open>internal\<close>, with the caught error as its details.
\<close>

definition createOrderAndLogTransaction ::
  "Clock \<Rightarrow> IncomingOrder \<Rightarrow> string \<Rightarrow> string \<Rightarrow> string \<Rightarrow> real \<Rightarrow> Store
     \<Rightarrow> (error + unit) \<times> Store" where
  "createOrderAndLogTransaction clock order uid reference status totalPaid s =
     (if vendorId order = [] \<or> orderId order = []
      then (Inl (HttpsError InvalidArgument ''Missing order details.'' None), s)
      else
        (let serverCalculatedServiceFee = calculateServiceCharge (subtotal order)
         in if \<bar>serverCalculatedServiceFee - serviceFee order\<bar> > 1
            then (Inl (HttpsError InvalidArgument ''Service fee mismatch.'' None), s)
            else
              (let order1 = order\<lparr>serviceFee := serverCalculatedServiceFee\<rparr>
               in if \<bar>totalPaid - expectedTotal order1\<bar> > 1
                  then (Inl (HttpsError InvalidArgument ''Total paid mismatch.'' None), s)
                  else
                    (let order2 = order1\<lparr>totalAmountPaid := totalPaid\<rparr>
                     in catch (\<lambda>error. HttpsError Internal ''Transaction failed'' (Some error))
                          (runTransaction
                             (createOrderAndLogTransaction_tx clock order2 uid reference status
                                totalPaid) s)))))"

text \<open>
  \<^verbatim>\<open>Math.floor(1000 + Math.random() * 9000).toString()\<close>: the decimal digits of a
  natural number. The random draw is an argument of the handler.
\<close>

definition digit :: "nat \<Rightarrow> char" where
  "digit d = ''0123456789'' ! d"

fun toString :: "nat \<Rightarrow> string" where
  "toString n = (if n < 10 then [digit n] else toString (n div 10) @ [digit (n mod 10)])"

text \<open>
  The callable \<^verbatim>\<open>generateDeliveryCode\<close>: a read and an update outside any
  transaction. The expiry is 72 hours after \<open>now\<close>.
\<close>

definition generateDeliveryCode ::
  "Clock \<Rightarrow> real \<Rightarrow> string \<Rightarrow> Store \<Rightarrow> (error + string) \<times> Store" where
  "generateDeliveryCode clock random oid s =
     (if oid = [] then (Inl (HttpsError InvalidArgument ''Missing order ID.'' None), s)
      else
        catch (\<lambda>error. HttpsError Internal ''Failed to generate delivery code.'' (Some error))
          (case orders s oid of
             None \<Rightarrow> (Inl (HttpsError NotFound ''Order not found.'' None), s)
           | Some existingData \<Rightarrow>
               if deliveryConfirmed existingData = Some True
               then (Inl (HttpsError FailedPrecondition
                            ''Order already marked as delivered.'' None), s)
               else
                 (let code = toString (nat \<lfloor>1000 + random * 9000\<rfloor>);
                      expiration = now clock + 72 * 3600000
                  in (Inr code,
                      s\<lparr>orders := (orders s)(oid \<mapsto>
                           existingData\<lparr>deliveryCode := Some code,
                                         deliveryCodeExpiresAt := Some expiration,
                                         deliveryConfirmed := Some False\<rparr>)\<rparr>))))"

text \<open>
  The update function of \<^verbatim>\<open>confirmOrderWithOTP\<close>. The timeline entry holds the
  instant one hour after \<open>now\<close> (the source formats it as an ISO string with the suffix
  \<open>+01:00\<close>; the model keeps the instant).
\<close>

definition confirmOrderWithOTP_tx :: "Clock \<Rightarrow> string \<Rightarrow> string \<Rightarrow> string \<Rightarrow> Store \<Rightarrow> Tx" where
  "confirmOrderWithOTP_tx clock oid vid enteredOtp s =
     tx_get (OrderRef oid) (tx_get (UserRef vid)
       (case orders s oid of
          None \<Rightarrow> throw (HttpsError NotFound ''Order not found.'' None)
        | Some orderData \<Rightarrow>
            (case users s vid of
               None \<Rightarrow> throw (HttpsError NotFound ''Vendor not found.'' None)
             | Some vendorData \<Rightarrow>
                 (let correctOtp = deliveryCode orderData;
                      confirmed = deliveryConfirmed orderData;
                      expired = (case deliveryCodeExpiresAt orderData of
                                   None \<Rightarrow> False
                                 | Some expiresAt \<Rightarrow> now clock > expiresAt)
                  in if expired
                     then throw (HttpsError DeadlineExceeded ''OTP has expired.'' None)
                     else if confirmed = Some True
                     then throw (HttpsError AlreadyExists ''Delivery already confirmed.'' None)
                     else if Some enteredOtp \<noteq> correctOtp
                     then throw (HttpsError PermissionDenied ''Incorrect OTP.'' None)
                     else
                       (let pending = orZero (pendingBalance (wallet vendorData));
                            eligible = orZero (eligibleBalance (wallet vendorData));
                            commission = vendorEarnings orderData
                        in if commission > pending
                           then throw (HttpsError FailedPrecondition
                                         ''Pending balance too low.'' None)
                           else
                             tx_put (UpdateUser vid
                               (\<lambda>u. u\<lparr>wallet := (wallet u)
                                          \<lparr>pendingBalance := Some (pending - commission),
                                           eligibleBalance := Some (eligible + commission)\<rparr>,
                                        user_updatedAt := Some (now clock)\<rparr>))
                             (tx_put (UpdateOrder oid
                               (\<lambda>d. d\<lparr>deliveryConfirmed := Some True,
                                        orderStatus := ''completed'',
                                        reviewed := Some False,
                                        updatedAt := now clock,
                                        timeline := arrayUnion (timeline d)
                                          \<lparr>tl_status = ''Order completed'',
                                           tl_timestamp = now clock + 60 * 60 * 1000,
                                           tl_actor = ''vendor''\<rparr>\<rparr>))
                               finish))))))"

definition confirmOrderWithOTP ::
  "Clock \<Rightarrow> string \<Rightarrow> string \<Rightarrow> string \<Rightarrow> Store \<Rightarrow> (error + unit) \<times> Store" where
  "confirmOrderWithOTP clock oid vid enteredOtp s =
     (if oid = [] \<or> vid = [] \<or> enteredOtp = []
      then (Inl (HttpsError InvalidArgument ''Missing orderId, vendorId, or OTP.'' None), s)
      else catch (\<lambda>error. HttpsError Internal ''OTP confirmation failed'' (Some error))
             (runTransaction (confirmOrderWithOTP_tx clock oid vid enteredOtp) s))"

section \<open>Withdrawals\<close>

text \<open>
  \<^verbatim>\<open>requestVendorWithdrawal\<close>. The id of the new request is the automatic id of
  \<^verbatim>\<open>db.collection("withdrawalRequest").doc()\<close>, an argument of the model.
\<close>

definition requestVendorWithdrawal_tx ::
  "Clock \<Rightarrow> string \<Rightarrow> string \<Rightarrow> real \<Rightarrow> string \<Rightarrow> string \<Rightarrow> string \<Rightarrow> string \<Rightarrow> Store \<Rightarrow> Tx" where
  "requestVendorWithdrawal_tx clock newId vid amount bankName bCode accNumber accName s =
     tx_get (UserRef vid)
       (case users s vid of
          None \<Rightarrow> throw (HttpsError NotFound ''Vendor not found.'' None)
        | Some vendorDoc \<Rightarrow>
            (let eligible = orZero (eligibleBalance (wallet vendorDoc))
             in if eligible < amount
                then throw (HttpsError FailedPrecondition ''Insufficient eligible balance.'' None)
                else
                  tx_put (UpdateUser vid
                    (\<lambda>u. u\<lparr>wallet := (wallet u)\<lparr>eligibleBalance := Some (eligible - amount)\<rparr>,
                             user_updatedAt := Some (now clock)\<rparr>))
                  (tx_put (SetWithdrawal newId
                     \<lparr>wd_vendorId = vid,
                      wd_amount = amount,
                      wd_bankName = bankName,
                      wd_bankCode = bCode,
                      wd_accountNumber = accNumber,
                      wd_accountName = accName,
                      wd_status = ''pending'',
                      wd_requestedAt = now clock,
                      wd_transferReference = None,
                      wd_approvedAt = None,
                      wd_rejectionReason = None,
                      wd_reviewedAt = None\<rparr>)
                     finish)))"

definition requestVendorWithdrawal ::
  "Clock \<Rightarrow> string \<Rightarrow> string \<Rightarrow> real \<Rightarrow> string \<Rightarrow> string \<Rightarrow> string \<Rightarrow> string \<Rightarrow> Store
     \<Rightarrow> (error + unit) \<times> Store" where
  "requestVendorWithdrawal clock newId vid amount bankName bCode accNumber accName s =
     (if vid = [] \<or> amount = 0 \<or> bankName = [] \<or> accNumber = [] \<or> accName = []
      then (Inl (HttpsError InvalidArgument ''Missing required fields.'' None), s)
      else catch (\<lambda>error. HttpsError Internal ''Withdrawal request failed.'' None)
             (runTransaction
                (requestVendorWithdrawal_tx clock newId vid amount bankName bCode accNumber accName)
                s))"

definition rejectVendorWithdrawal_tx :: "Clock \<Rightarrow> string \<Rightarrow> string \<Rightarrow> Store \<Rightarrow> Tx" where
  "rejectVendorWithdrawal_tx clock withdrawalId reason s =
     tx_get (WithdrawalRef withdrawalId)
       (case withdrawalRequest s withdrawalId of
          None \<Rightarrow> throw (HttpsError NotFound ''Withdrawal request not found.'' None)
        | Some withdrawalData \<Rightarrow>
            if wd_status withdrawalData \<noteq> ''pending''
            then throw (HttpsError FailedPrecondition
                          ''Only pending withdrawals can be rejected.'' None)
            else
              (let vid = wd_vendorId withdrawalData;
                   amount = wd_amount withdrawalData
               in tx_get (UserRef vid)
                    (case users s vid of
                       None \<Rightarrow> throw (HttpsError NotFound ''Vendor not found.'' None)
                     | Some vendorDoc \<Rightarrow>
                         (let eligible = orZero (eligibleBalance (wallet vendorDoc))
                          in tx_put (UpdateUser vid
                               (\<lambda>u. u\<lparr>wallet := (wallet u)
                                          \<lparr>eligibleBalance := Some (eligible + amount)\<rparr>,
                                        user_updatedAt := Some (now clock)\<rparr>))
                             (tx_put (UpdateWithdrawal withdrawalId
                                (\<lambda>w. w\<lparr>wd_status := ''rejected'',
                                         wd_rejectionReason :=
                                           Some (if reason = [] then ''Rejected by admin''
                                                 else reason),
                                         wd_reviewedAt := Some (now clock)\<rparr>))
                                finish)))))"

definition rejectVendorWithdrawal ::
  "Clock \<Rightarrow> string \<Rightarrow> string \<Rightarrow> Store \<Rightarrow> (error + unit) \<times> Store" where
  "rejectVendorWithdrawal clock withdrawalId reason s =
     (if withdrawalId = []
      then (Inl (HttpsError InvalidArgument ''Missing withdrawalId.'' None), s)
      else catch (\<lambda>error. HttpsError Internal ''Withdrawal rejection failed.'' (Some error))
             (runTransaction (rejectVendorWithdrawal_tx clock withdrawalId reason) s))"

text \<open>
  The update function of \<^verbatim>\<open>approveVendorWithdrawal\<close>: the two reads, then the two
  requests to the payout gateway, then the two writes, all inside the function passed to
  \<^verbatim>\<open>db.runTransaction\<close>. The balance is decremented with
  \<^verbatim>\<open>FieldValue.increment(-amount)\<close>; the list of transactions is the one that was
  read, with the new entry appended.
\<close>

definition approveVendorWithdrawal_tx ::
  "Env \<Rightarrow> Gateway \<Rightarrow> Clock \<Rightarrow> string \<Rightarrow> bool \<Rightarrow> Store \<Rightarrow> Tx" where
  "approveVendorWithdrawal_tx env gw clock withdrawalId isLive s =
     tx_get (WithdrawalRef withdrawalId)
       (case withdrawalRequest s withdrawalId of
          None \<Rightarrow> throw (HttpsError NotFound ''Withdrawal request not found.'' None)
        | Some withdrawalData \<Rightarrow>
            if wd_status withdrawalData \<noteq> ''pending''
            then throw (HttpsError FailedPrecondition ''Withdrawal already processed.'' None)
            else
              tx_get (UserRef (wd_vendorId withdrawalData))
                (case users s (wd_vendorId withdrawalData) of
                   None \<Rightarrow> throw (HttpsError NotFound ''Vendor not found.'' None)
                 | Some vendorData \<Rightarrow>
                     (let txs = transactions (wallet vendorData)
                      in case getPaystackHeaders env isLive of
                           Inl e \<Rightarrow> throw e
                         | Inr headers \<Rightarrow>
                             (let payload_amount = calculateAmount (wd_amount withdrawalData);
                                  payload_recipient =
                                    \<lparr>rc_type = ''nuban'',
                                     rc_name = wd_accountName withdrawalData,
                                     rc_account_number = wd_accountNumber withdrawalData,
                                     rc_bank_code = wd_bankCode withdrawalData,
                                     rc_currency = ''NGN''\<rparr>;
                                  payload_reason = VendorWithdrawalFor (wd_amount withdrawalData)
                              in http_post ''https://api.paystack.co/transferrecipient''
                                   (case transferrecipient gw headers payload_recipient of
                                      None \<Rightarrow> throw (JsError ''Request failed'')
                                    | Some recipientCode \<Rightarrow>
                                        http_post ''https://api.paystack.co/transfer''
                                          (case transfer gw headers
                                                  \<lparr>tr_source = ''balance'',
                                                   tr_amount = payload_amount,
                                                   tr_recipient = recipientCode,
                                                   tr_reason = payload_reason\<rparr> of
                                             None \<Rightarrow> throw (JsError ''Request failed'')
                                           | Some transferReference \<Rightarrow>
                                               tx_put (UpdateWithdrawal withdrawalId
                                                 (\<lambda>w. w\<lparr>wd_status := ''approved'',
                                                          wd_transferReference :=
                                                            Some transferReference,
                                                          wd_approvedAt := Some (now clock)\<rparr>))
                                               (tx_put (UpdateUser (wd_vendorId withdrawalData)
                                                 (\<lambda>u. u\<lparr>wallet := (wallet u)
                                                   \<lparr>balance := Some (orZero (balance (wallet u))
                                                                      + (- wd_amount withdrawalData)),
                                                    transactions := txs @
                                                      [\<lparr>tx_amount = wd_amount withdrawalData,
                                                        tx_reference = transferReference,
                                                        tx_status = ''success'',
                                                        tx_type = ''debit'',
                                                        tx_source = ''withdrawal'',
                                                        tx_vendorId =
                                                          Some (wd_vendorId withdrawalData),
                                                        tx_userId = None,
                                                        tx_createdAt = now clock,
                                                        tx_order = None\<rparr>]\<rparr>,
                                                    user_updatedAt := Some (now clock)\<rparr>))
                                                 finish)))))))"

definition approveVendorWithdrawal ::
  "Env \<Rightarrow> Gateway \<Rightarrow> Clock \<Rightarrow> string \<Rightarrow> bool \<Rightarrow> Store \<Rightarrow> (error + unit) \<times> Store" where
  "approveVendorWithdrawal env gw clock withdrawalId isLive s =
     (if withdrawalId = []
      then (Inl (HttpsError InvalidArgument ''Missing withdrawal ID.'' None), s)
      else catch (\<lambda>error. HttpsError Internal ''Approval failed.'' None)
             (runTransaction (approveVendorWithdrawal_tx env gw clock withdrawalId isLive) s))"

definition approveVendorWithdrawal_events ::
  "Env \<Rightarrow> Gateway \<Rightarrow> Clock \<Rightarrow> string \<Rightarrow> bool \<Rightarrow> Store \<Rightarrow> Event list" where
  "approveVendorWithdrawal_events env gw clock withdrawalId isLive s =
     (if withdrawalId = [] then []
      else transaction_events (approveVendorWithdrawal_tx env gw clock withdrawalId isLive) s)"

section \<open>Refunds\<close>

text \<open>
  \<^verbatim>\<open>requestRefund\<close>: a read and a \<^verbatim>\<open>set\<close> outside any transaction. Its arguments
  are typed, so the check for missing fields has nothing to reject. The service fee is
  the one field that the check does not cover: when the request lacks it, the document
  handed to \<^verbatim>\<open>set\<close> holds \<^verbatim>\<open>serviceFee: undefined\<close>, which the store refuses, and
  the handler throws \<open>internal\<close> like for every other error of its body.
\<close>

definition requestRefund ::
  "Clock \<Rightarrow> string \<Rightarrow> string \<Rightarrow> string \<Rightarrow> real \<Rightarrow> real \<Rightarrow> real \<Rightarrow> real option \<Rightarrow> real \<Rightarrow> real
     \<Rightarrow> string \<Rightarrow> Store \<Rightarrow> (error + unit) \<times> Store" where
  "requestRefund clock oid uid vid amount sub delivery fee earnings totalPaid reason s =
     catch (\<lambda>error. HttpsError Internal ''Refund request failed.'' None)
       (case refundRequests s oid of
          Some existing \<Rightarrow>
            (Inl (HttpsError AlreadyExists ''Refund request already exists.'' None), s)
        | None \<Rightarrow>
            (case fee of
               None \<Rightarrow> (Inl (JsError ''Cannot use undefined as a Firestore value''), s)
             | Some definedFee \<Rightarrow>
                 (Inr (),
                  s\<lparr>refundRequests := (refundRequests s)(oid \<mapsto>
                       \<lparr>rf_orderId = oid,
                        rf_userId = uid,
                        rf_vendorId = vid,
                        rf_amount = amount,
                        rf_subtotal = sub,
                        rf_deliveryFee = delivery,
                        rf_serviceFee = Some definedFee,
                        rf_vendorEarnings = earnings,
                        rf_totalPaid = totalPaid,
                        rf_reason = reason,
                        rf_status = ''pending'',
                        rf_createdAt = now clock,
                        rf_transferReference = None,
                        rf_approvedAt = None\<rparr>)\<rparr>)))"

definition bankDetailsMissing :: "PaymentInfo option \<Rightarrow> bool" where
  "bankDetailsMissing bank =
     (case bank of
        None \<Rightarrow> True
      | Some b \<Rightarrow> accountNumber b = [] \<or> accountName b = [] \<or> bankCode b = [])"

text \<open>
  The update function of \<^verbatim>\<open>approveRefundRequest\<close>: three reads, the two requests to
  the payout gateway, three writes, all inside the function passed to
  \<^verbatim>\<open>db.runTransaction\<close>. The customer and the vendor are read without a check that
  they exist: a customer who does not exist has no bank details, and the wallet of a
  vendor who does not exist reads as empty (the update of that vendor then fails at the
  commit). Both lists of transactions are the ones that were read, with the new entry
  appended.
\<close>

definition approveRefundRequest_tx ::
  "Env \<Rightarrow> Gateway \<Rightarrow> Clock \<Rightarrow> string \<Rightarrow> string \<Rightarrow> real \<Rightarrow> bool \<Rightarrow> Store \<Rightarrow> Tx" where
  "approveRefundRequest_tx env gw clock oid uid amount isLive s =
     tx_get (RefundRef oid)
       (case refundRequests s oid of
          None \<Rightarrow> throw (HttpsError NotFound ''Refund request not found.'' None)
        | Some refundData \<Rightarrow>
            if rf_status refundData \<noteq> ''pending''
            then throw (HttpsError FailedPrecondition ''Refund already processed.'' None)
            else
              (let vid = rf_vendorId refundData;
                   userData = users s uid;
                   vendorData = users s vid;
                   bank = (case userData of None \<Rightarrow> None | Some u \<Rightarrow> paymentInfo u)
               in tx_get (UserRef uid) (tx_get (UserRef vid)
                    (case bank of
                       None \<Rightarrow> throw (HttpsError FailedPrecondition
                                        ''User bank details missing.'' None)
                     | Some b \<Rightarrow>
                         if bankDetailsMissing bank
                         then throw (HttpsError FailedPrecondition
                                       ''User bank details missing.'' None)
                         else
                           (case getPaystackHeaders env isLive of
                              Inl e \<Rightarrow> throw e
                            | Inr headers \<Rightarrow>
                                (let recipientPayload =
                                       \<lparr>rc_type = ''nuban'',
                                        rc_name = accountName b,
                                        rc_account_number = accountNumber b,
                                        rc_bank_code = bankCode b,
                                        rc_currency = ''NGN''\<rparr>
                                 in http_post ''https://api.paystack.co/transferrecipient''
                                      (case transferrecipient gw headers recipientPayload of
                                         None \<Rightarrow> throw (JsError ''Request failed'')
                                       | Some recipientCode \<Rightarrow>
                                           http_post ''https://api.paystack.co/transfer''
                                             (case transfer gw headers
                                                     \<lparr>tr_source = ''balance'',
                                                      tr_amount =
                                                        calculateAmount (rf_amount refundData),
                                                      tr_recipient = recipientCode,
                                                      tr_reason = RefundForOrder oid\<rparr> of
                                                None \<Rightarrow> throw (JsError ''Request failed'')
                                              | Some transferReference \<Rightarrow>
     (let txs = (case userData of None \<Rightarrow> [] | Some u \<Rightarrow> transactions (wallet u));
          earnings = rf_vendorEarnings refundData;
          vendorTransactions =
            (case vendorData of None \<Rightarrow> [] | Some v \<Rightarrow> transactions (wallet v));
          vendorBalance =
            (case vendorData of None \<Rightarrow> 0 | Some v \<Rightarrow> orZero (balance (wallet v)));
          vendorPending =
            (case vendorData of None \<Rightarrow> 0 | Some v \<Rightarrow> orZero (pendingBalance (wallet v)));
          updatedVendorBalance = vendorBalance - earnings;
          updatedVendorPendingBalance = vendorPending - earnings;
          refundMonth = monthKey clock;
          prevMonthSales =
            (case vendorData of None \<Rightarrow> 0 | Some v \<Rightarrow> orZero (monthlySales v refundMonth));
          refundSalesTotal = rf_subtotal refundData + rf_deliveryFee refundData;
          newMonthSales = max (prevMonthSales - refundSalesTotal) 0
      in tx_put (UpdateRefund oid
           (\<lambda>r. r\<lparr>rf_status := ''approved'',
                    rf_transferReference := Some transferReference,
                    rf_approvedAt := Some (now clock)\<rparr>))
         (tx_put (UpdateUser uid
           (\<lambda>u. u\<lparr>wallet := (wallet u)
                      \<lparr>transactions := txs @
                         [\<lparr>tx_amount = amount,
                           tx_reference = transferReference,
                           tx_status = ''success'',
                           tx_type = ''credit'',
                           tx_source = ''refund'',
                           tx_vendorId = None,
                           tx_userId = Some uid,
                           tx_createdAt = now clock,
                           tx_order = None\<rparr>]\<rparr>,
                    user_updatedAt := Some (now clock)\<rparr>))
         (tx_put (UpdateUser vid
           (\<lambda>u. u\<lparr>wallet := (wallet u)
                      \<lparr>balance := Some updatedVendorBalance,
                       pendingBalance := Some updatedVendorPendingBalance,
                       transactions := vendorTransactions @
                         [\<lparr>tx_amount = earnings,
                           tx_reference = transferReference,
                           tx_status = ''success'',
                           tx_type = ''debit'',
                           tx_source = ''refund'',
                           tx_vendorId = Some vid,
                           tx_userId = None,
                           tx_createdAt = now clock,
                           tx_order = None\<rparr>]\<rparr>,
                    monthlySales := (monthlySales u)(refundMonth \<mapsto> newMonthSales),
                    user_updatedAt := Some (now clock)\<rparr>))
           finish)))))))))))"

definition approveRefundRequest ::
  "Env \<Rightarrow> Gateway \<Rightarrow> Clock \<Rightarrow> string \<Rightarrow> string \<Rightarrow> real \<Rightarrow> bool \<Rightarrow> Store
     \<Rightarrow> (error + unit) \<times> Store" where
  "approveRefundRequest env gw clock oid uid amount isLive s =
     (if oid = [] \<or> uid = [] \<or> amount = 0
      then (Inl (HttpsError InvalidArgument ''Missing refund approval data.'' None), s)
      else catch (\<lambda>error. HttpsError Internal ''Refund approval failed.'' None)
             (runTransaction (approveRefundRequest_tx env gw clock oid uid amount isLive) s))"

definition approveRefundRequest_events ::
  "Env \<Rightarrow> Gateway \<Rightarrow> Clock \<Rightarrow> string \<Rightarrow> string \<Rightarrow> real \<Rightarrow> bool \<Rightarrow> Store \<Rightarrow> Event list" where
  "approveRefundRequest_events env gw clock oid uid amount isLive s =
     (if oid = [] \<or> uid = [] \<or> amount = 0 then []
      else transaction_events (approveRefundRequest_tx env gw clock oid uid amount isLive) s)"

section \<open>Referrals\<close>

definition addReferralForVendor_tx :: "Clock \<Rightarrow> string \<Rightarrow> string \<Rightarrow> Store \<Rightarrow> Tx" where
  "addReferralForVendor_tx clock vid customer s =
     tx_get (VendorRef vid)
       (case vendors s vid of
          None \<Rightarrow> throw (HttpsError NotFound ''Vendor not found'' None)
        | Some vendorData \<Rightarrow>
            tx_get (ReferralRef vid)
              (case referrals s vid of
                 Some data \<Rightarrow>
                   (let updatedReferralHistory = referralHistory data @
                          [\<lparr>referredCustomerId = customer,
                            pointsEarned = 10,
                            date = now clock,
                            rh_orderId = None\<rparr>]
                    in tx_put (UpdateReferral vid
                         (\<lambda>r. r\<lparr>totalReferralPoints := totalReferralPoints r + 10,
                                  weeklyReferralPoints := weeklyReferralPoints r + 10,
                                  referredCustomersCount := referredCustomersCount r + 1,
                                  referralHistory := updatedReferralHistory,
                                  lastReferralUpdate := now clock,
                                  isActive := True\<rparr>))
                         finish)
               | None \<Rightarrow>
                   (let referralModel =
                          \<lparr>ref_vendorId = vid,
                           storeName = vendorName vendorData,
                           vendorLogoUrl = (case logoUrl vendorData of None \<Rightarrow> [] | Some u \<Rightarrow> u),
                           totalReferralPoints = 10,
                           weeklyReferralPoints = 10,
                           referralCode =
                             (case vendorReferralCode vendorData of None \<Rightarrow> [] | Some c \<Rightarrow> c),
                           referredCustomersCount = 1,
                           successfulReferralsCount = 0,
                           referralHistory =
                             [\<lparr>referredCustomerId = customer,
                               pointsEarned = 10,
                               date = now clock,
                               rh_orderId = None\<rparr>],
                           lastReferralUpdate = now clock,
                           isActive = True,
                           totalRewardsClaimed = 0,
                           lastLeaderboardPosition = 0,
                           totalFeaturedSpots = 0\<rparr>
                    in tx_put (SetReferral vid referralModel) finish)))"

definition addReferralForVendor ::
  "Clock \<Rightarrow> string \<Rightarrow> string \<Rightarrow> Store \<Rightarrow> (error + unit) \<times> Store" where
  "addReferralForVendor clock vid customer s =
     (if vid = [] \<or> customer = []
      then (Inl (HttpsError InvalidArgument ''Missing vendorId or referredCustomerId'' None), s)
      else catch (\<lambda>error. HttpsError Internal ''Failed to add referral'' (Some error))
             (runTransaction (addReferralForVendor_tx clock vid customer) s))"

definition updateReferralPointsOnPurchase_tx ::
  "Clock \<Rightarrow> string \<Rightarrow> string \<Rightarrow> string \<Rightarrow> Store \<Rightarrow> Tx" where
  "updateReferralPointsOnPurchase_tx clock vid customer oid s =
     tx_get (ReferralRef vid)
       (case referrals s vid of
          None \<Rightarrow> throw (HttpsError NotFound ''Referral record not found'' None)
        | Some referralData \<Rightarrow>
            (let hasReferral =
                   list_ex (\<lambda>history. referredCustomerId history = customer)
                     (referralHistory referralData)
             in if \<not> hasReferral
                then throw (HttpsError FailedPrecondition
                              ''Customer was not referred by this vendor'' None)
                else
                  (let updatedReferralHistory = referralHistory referralData @
                         [\<lparr>referredCustomerId = customer,
                           pointsEarned = 40,
                           date = now clock,
                           rh_orderId = Some oid\<rparr>]
                   in tx_put (UpdateReferral vid
                        (\<lambda>r. r\<lparr>totalReferralPoints := totalReferralPoints r + 40,
                                 weeklyReferralPoints := weeklyReferralPoints r + 40,
                                 successfulReferralsCount := successfulReferralsCount r + 1,
                                 referralHistory := updatedReferralHistory,
                                 lastReferralUpdate := now clock\<rparr>))
                        finish)))"

definition updateReferralPointsOnPurchase ::
  "Clock \<Rightarrow> string \<Rightarrow> string \<Rightarrow> string \<Rightarrow> Store \<Rightarrow> (error + unit) \<times> Store" where
  "updateReferralPointsOnPurchase clock vid customer oid s =
     (if vid = [] \<or> customer = [] \<or> oid = []
      then (Inl (HttpsError InvalidArgument
                   ''Missing required fields: vendorId, referredCustomerId, or orderId'' None), s)
      else catch (\<lambda>error. HttpsError Internal ''Failed to update referral points'' (Some error))
             (runTransaction (updateReferralPointsOnPurchase_tx clock vid customer oid) s))"

text \<open>
  The two handlers write two kinds of history entries: a signup is worth 10 points and
  has no order id, a purchase is worth 40 points and has one. \<open>signupEntry\<close> recognises
  the signup of a customer, and \<open>signupsFirst\<close> holds of a record in which every customer
  of the history has a signup entry.
\<close>

definition signupEntry :: "string \<Rightarrow> ReferralHistory \<Rightarrow> bool" where
  "signupEntry customer g =
     (referredCustomerId g = customer \<and> pointsEarned g = 10 \<and> rh_orderId g = None)"

definition signupsFirst :: "ReferralModel \<Rightarrow> bool" where
  "signupsFirst r =
     list_all (\<lambda>h. list_ex (signupEntry (referredCustomerId h)) (referralHistory r))
       (referralHistory r)"

section \<open>Reading a wallet\<close>

text \<open>
  What the handlers read of a user's wallet and sales: \<^verbatim>\<open>wallet.balance || 0\<close>,
  \<^verbatim>\<open>wallet.pendingBalance || 0\<close>, \<^verbatim>\<open>wallet.eligibleBalance || 0\<close> and
  \<^verbatim>\<open>stats.monthlySales[key] || 0\<close>.
\<close>

definition balanceOf :: "Store \<Rightarrow> string \<Rightarrow> real" where
  "balanceOf s uid = (case users s uid of None \<Rightarrow> 0 | Some u \<Rightarrow> orZero (balance (wallet u)))"

definition pendingBalanceOf :: "Store \<Rightarrow> string \<Rightarrow> real" where
  "pendingBalanceOf s uid =
     (case users s uid of None \<Rightarrow> 0 | Some u \<Rightarrow> orZero (pendingBalance (wallet u)))"

definition eligibleBalanceOf :: "Store \<Rightarrow> string \<Rightarrow> real" where
  "eligibleBalanceOf s uid =
     (case users s uid of None \<Rightarrow> 0 | Some u \<Rightarrow> orZero (eligibleBalance (wallet u)))"

definition monthlySalesOf :: "Store \<Rightarrow> string \<Rightarrow> string \<Rightarrow> real" where
  "monthlySalesOf s uid key =
     (case users s uid of None \<Rightarrow> 0 | Some u \<Rightarrow> orZero (monthlySales u key))"

definition transactionsOf :: "Store \<Rightarrow> string \<Rightarrow> LedgerEntry list" where
  "transactionsOf s uid = (case users s uid of None \<Rightarrow> [] | Some u \<Rightarrow> transactions (wallet u))"

text \<open>The code of the error that a call throws, if it throws an \<^verbatim>\<open>HttpsError\<close>.\<close>

definition thrown_code :: "(error + 'a) \<times> Store \<Rightarrow> code option" where
  "thrown_code r = (case fst r of Inl e \<Rightarrow> error_code e | Inr v \<Rightarrow> None)"

section \<open>Where the gateway is called\<close>

text \<open>
  Two properties of the events of a handler. \<open>postWhileOpen\<close> holds when some request to
  the gateway is made while a transaction is open (after its \<open>TxBegin\<close> and before its
  \<open>TxCommit\<close> or \<open>TxRollback\<close>). \<open>readsPostsWrites\<close> holds of a run that opens one
  transaction, reads, then posts, then buffers its writes, and ends with the commit or
  the rollback; a handler that stops before it opens a transaction has no events.
\<close>

fun postWhile :: "bool \<Rightarrow> Event list \<Rightarrow> bool" where
  "postWhile isOpen [] = False"
| "postWhile isOpen (TxBegin # es) = postWhile True es"
| "postWhile isOpen (TxCommit # es) = postWhile False es"
| "postWhile isOpen (TxRollback # es) = postWhile False es"
| "postWhile isOpen (HttpPost u # es) = (isOpen \<or> postWhile isOpen es)"
| "postWhile isOpen (TxGet r # es) = postWhile isOpen es"
| "postWhile isOpen (TxPut r # es) = postWhile isOpen es"

definition postWhileOpen :: "Event list \<Rightarrow> bool" where
  "postWhileOpen es = postWhile False es"

datatype Phase = Reading | Posting | Writing

fun phases :: "Phase \<Rightarrow> Event list \<Rightarrow> bool" where
  "phases p [] = False"
| "phases p [TxCommit] = True"
| "phases p [TxRollback] = True"
| "phases Reading (TxGet r # es) = phases Reading es"
| "phases Reading (HttpPost u # es) = phases Posting es"
| "phases Posting (HttpPost u # es) = phases Posting es"
| "phases p (TxPut r # es) = phases Writing es"
| "phases p es = False"

definition readsPostsWrites :: "Event list \<Rightarrow> bool" where
  "readsPostsWrites es =
     (case es of [] \<Rightarrow> True | e # rest \<Rightarrow> e = TxBegin \<and> phases Reading rest)"

section \<open>A scenario\<close>

text \<open>
  One vendor, one customer and one order of subtotal 5000 and delivery fee 500 (service
  charge 375, total 5875), taken through settlement, delivery confirmation, a refund and
  a withdrawal. The theorems below are run on these states.
\<close>

definition clockAt :: "timestamp \<Rightarrow> Clock" where
  "clockAt t = \<lparr>now = t, monthKey = ''2025-05''\<rparr>"

definition env0 :: Env where
  "env0 = \<lparr>PAYSTACK_LIVE_SECRET_KEY = None, PAYSTACK_TEST_SECRET_KEY = Some ''sk_test''\<rparr>"

definition gateway0 :: Gateway where
  "gateway0 = \<lparr>transferrecipient = (\<lambda>h r. Some ''RCP_1''), transfer = (\<lambda>h t. Some ''TRF_1'')\<rparr>"

definition gatewayDown :: Gateway where
  "gatewayDown = \<lparr>transferrecipient = (\<lambda>h r. Some ''RCP_1''), transfer = (\<lambda>h t. None)\<rparr>"

definition emptyWallet :: Wallet where
  "emptyWallet = \<lparr>balance = None, pendingBalance = None, eligibleBalance = None,
                   transactions = []\<rparr>"

definition vendor0 :: UserDoc where
  "vendor0 = \<lparr>wallet = emptyWallet, monthlySales = Map.empty, paymentInfo = None,
               user_updatedAt = None\<rparr>"

definition customer0 :: UserDoc where
  "customer0 = \<lparr>wallet = emptyWallet, monthlySales = Map.empty,
                 paymentInfo = Some \<lparr>accountNumber = ''0123456789'',
                                      accountName = ''Customer One'',
                                      bankCode = ''044''\<rparr>,
                 user_updatedAt = None\<rparr>"

definition store0 :: Store where
  "store0 = \<lparr>orders = Map.empty,
              users = [''vendor1'' \<mapsto> vendor0, ''customer1'' \<mapsto> customer0],
              refundRequests = Map.empty,
              withdrawalRequest = Map.empty,
              referrals = Map.empty,
              vendors = [''vendor1'' \<mapsto> \<lparr>vendorName = ''Vendor One'', logoUrl = None,
                                           vendorReferralCode = Some ''V1''\<rparr>]\<rparr>"

definition order0 :: IncomingOrder where
  "order0 = \<lparr>orderId = ''order1'', userId = ''customer1'', vendorId = ''vendor1'',
              vendorCategory = ''food'',
              items = [\<lparr>productId = ''p1'', itemName = ''rice'', quantity = 2, price = 2500\<rparr>],
              subtotal = 5000, deliveryFee = 500, serviceFee = 375,
              vendorCommission = 0, vendorEarnings = 5500, totalAmountPaid = 5875,
              deliveryType = ''delivery'', deliveryAddress = ''1 Main Street'',
              orderCutoffTime = ''18:00'', vendorNote = None,
              paymentReference = ''ref1'', paymentStatus = ''paid'', orderStatus = ''pending'',
              createdAt = 1000, updatedAt = 1000,
              appliedRewardType = None, rewardDiscountAmount = None,
              originalTotalBeforeReward = None, platformDebtAmount = None,
              platformDebtType = None, platformDebtSettled = None\<rparr>"

text \<open>Settlement of the order.\<close>

definition store1 :: Store where
  "store1 = snd (createOrderAndLogTransaction (clockAt 1000) order0 ''customer1'' ''ref1''
                   ''success'' 5875 store0)"

text \<open>The delivery code 5500 is generated; it expires at 2000 + 72 hours.\<close>

definition store2 :: Store where
  "store2 = snd (generateDeliveryCode (clockAt 2000) (1 / 2) ''order1'' store1)"

text \<open>The vendor confirms the delivery with the code.\<close>

definition store3 :: Store where
  "store3 = snd (confirmOrderWithOTP (clockAt 3000) ''order1'' ''vendor1'' ''5500'' store2)"

text \<open>The customer asks for a refund of the order, and the refund is approved.\<close>

definition store4 :: Store where
  "store4 = snd (requestRefund (clockAt 4000) ''order1'' ''customer1'' ''vendor1'' 5875 5000 500
                   (Some 375) 5500 5875 ''item missing'' store3)"

definition store5 :: Store where
  "store5 = snd (approveRefundRequest env0 gateway0 (clockAt 5000) ''order1'' ''customer1'' 5875
                   False store4)"

text \<open>Instead of the refund, the vendor asks to withdraw 2000 of the released earnings.\<close>

definition storeW :: Store where
  "storeW = snd (requestVendorWithdrawal (clockAt 4000) ''w1'' ''vendor1'' 2000 ''First Bank''
                   ''011'' ''1234567890'' ''Vendor One'' store3)"

text \<open>A customer signs up with the vendor's referral code.\<close>

definition storeR :: Store where
  "storeR = snd (addReferralForVendor (clockAt 1000) ''vendor1'' ''customer1'' store0)"

section \<open>Theorems\<close>

subsection \<open>Pricing\<close>

text \<open>
  C1. For every subtotal \<open>\<ge> 0\<close> the service charge is \<open>min (s * 0.055 + 100) 2000\<close>
  and is not negative; at subtotal 0 it is 100, and from subtotal 34545.46 on it is
  exactly 2000.
\<close>

theorem calculateServiceCharge_spec:
  "0 \<le> s \<Longrightarrow>
     calculateServiceCharge s = min (s * (55 / 1000) + 100) 2000
     \<and> 0 \<le> calculateServiceCharge s
     \<and> calculateServiceCharge 0 = 100
     \<and> (3454546 / 100 \<le> s \<longrightarrow> calculateServiceCharge s = 2000)"
  by (simp add: calculateServiceCharge_def Let_def min_def)

theorem calculateServiceCharge_spec_witness:
  "(0::real) \<le> 40000
     \<and> calculateServiceCharge 40000 = min (40000 * (55 / 1000) + 100) 2000
     \<and> 0 \<le> calculateServiceCharge 40000
     \<and> calculateServiceCharge 0 = 100
     \<and> (3454546 / 100 \<le> (40000::real) \<and> calculateServiceCharge 40000 = 2000)"
  using calculateServiceCharge_spec [of 40000] by simp

text \<open>
  The earlier version does not pass the first case of the test suite (the base fee of
  100 at subtotal 0) nor its cap of 2000.
\<close>

lemma calculateServiceCharge_previous_differs:
  "calculateServiceCharge_previous 0 = 0 \<and> calculateServiceCharge_previous 40000 = 500"
  by (simp add: calculateServiceCharge_previous_def)

subsection \<open>Auxiliary facts\<close>

lemma orZero_simps [simp]: "orZero None = 0" "orZero (Some x) = x"
  by (simp_all add: orZero_def)

lemma catch_Inr: "catch h r = (Inr v, s1) \<longleftrightarrow> r = (Inr v, s1)"
  by (cases r) (auto simp add: catch_def split: sum.splits)

lemma catch_Inl: "catch h (Inl e, s) = (Inl (h e), s)"
  by (simp add: catch_def)

lemma tx_simps:
  "tx_get r k = (Get r # fst k, snd k)"
  "tx_put w k = (Put w # fst k, snd k)"
  "http_post u k = (Post u # fst k, snd k)"
  "throw e = ([], Some e)"
  "finish = ([], None)"
  by (simp_all add: tx_get_def tx_put_def http_post_def after_def throw_def finish_def)

text \<open>A transaction whose update function throws leaves the store as it was.\<close>

lemma runTransaction_failed:
  "fst (runTransaction f s) = Inl e \<Longrightarrow> snd (runTransaction f s) = s"
  by (cases "f s") (auto simp add: runTransaction_def split: option.splits)

text \<open>The definitions that a run of the scenario unfolds.\<close>

lemmas scenario_defs = clockAt_def env0_def gateway0_def gatewayDown_def emptyWallet_def
  vendor0_def customer0_def store0_def order0_def store1_def store2_def store3_def store4_def
  store5_def storeW_def storeR_def

lemmas handler_defs = createOrderAndLogTransaction_def createOrderAndLogTransaction_tx_def
  calculateServiceCharge_def expectedTotal_def arrayUnion_def getCommissionRate_def
  rewardFields_def undefinedRewardField_def orderDocument_def truthy_def IncomingOrder.extend_def OrderDoc.fields_def
  generateDeliveryCode_def digit_def confirmOrderWithOTP_def confirmOrderWithOTP_tx_def
  requestRefund_def approveRefundRequest_def approveRefundRequest_tx_def bankDetailsMissing_def
  getPaystackHeaders_def calculateAmount_def requestVendorWithdrawal_def
  requestVendorWithdrawal_tx_def approveVendorWithdrawal_def approveVendorWithdrawal_tx_def
  addReferralForVendor_def addReferralForVendor_tx_def updateReferralPointsOnPurchase_def
  updateReferralPointsOnPurchase_tx_def runTransaction_def catch_def Let_def
  tx_get_def tx_put_def http_post_def after_def throw_def finish_def

lemmas reading_defs = pendingBalanceOf_def eligibleBalanceOf_def balanceOf_def
  monthlySalesOf_def transactionsOf_def thrown_code_def

subsection \<open>The scenario, step by step\<close>

lemma scenario_settled:
  "createOrderAndLogTransaction (clockAt 1000) order0 ''customer1'' ''ref1'' ''success'' 5875
     store0 = (Inr (), store1)"
  by (simp add: scenario_defs handler_defs)

lemma scenario_code_generated:
  "generateDeliveryCode (clockAt 2000) (1 / 2) ''order1'' store1 = (Inr ''5500'', store2)"
  by (simp add: scenario_defs handler_defs)

lemma scenario_order_with_code:
  "\<exists>od. orders store2 ''order1'' = Some od \<and> deliveryCode od = Some ''5500''
      \<and> deliveryCodeExpiresAt od = Some 259202000 \<and> deliveryConfirmed od = Some False
      \<and> vendorEarnings od = 5500"
  by (simp add: scenario_defs handler_defs)

lemma scenario_vendor_credited:
  "\<exists>v. users store2 ''vendor1'' = Some v \<and> pendingBalance (wallet v) = Some 5500
      \<and> eligibleBalance (wallet v) = None \<and> balance (wallet v) = Some 5500"
  by (simp add: scenario_defs handler_defs)

lemma scenario_delivered:
  "confirmOrderWithOTP (clockAt 3000) ''order1'' ''vendor1'' ''5500'' store2 = (Inr (), store3)"
  by (simp add: scenario_defs handler_defs)

lemma scenario_released:
  "pendingBalanceOf store3 ''vendor1'' = 0 \<and> eligibleBalanceOf store3 ''vendor1'' = 5500
     \<and> balanceOf store3 ''vendor1'' = 5500"
  by (simp add: scenario_defs handler_defs reading_defs)

lemma scenario_refund_requested:
  "requestRefund (clockAt 4000) ''order1'' ''customer1'' ''vendor1'' 5875 5000 500 (Some 375)
     5500 5875 ''item missing'' store3 = (Inr (), store4)"
  by (simp add: scenario_defs handler_defs)

lemma scenario_refund_pending:
  "\<exists>r. refundRequests store4 ''order1'' = Some r \<and> rf_status r = ''pending''
      \<and> rf_vendorId r = ''vendor1'' \<and> rf_vendorEarnings r = 5500
      \<and> rf_subtotal r = 5000 \<and> rf_deliveryFee r = 500"
  by (simp add: scenario_defs handler_defs)

lemma scenario_before_refund:
  "pendingBalanceOf store4 ''vendor1'' = 0 \<and> eligibleBalanceOf store4 ''vendor1'' = 5500
     \<and> balanceOf store4 ''vendor1'' = 5500 \<and> monthlySalesOf store4 ''vendor1'' ''2025-05'' = 5500"
  by (simp add: scenario_defs handler_defs reading_defs)

lemma scenario_refund_approved:
  "approveRefundRequest env0 gateway0 (clockAt 5000) ''order1'' ''customer1'' 5875 False store4
     = (Inr (), store5)"
  by (simp add: scenario_defs handler_defs)

lemma scenario_after_refund:
  "pendingBalanceOf store5 ''vendor1'' = - 5500 \<and> eligibleBalanceOf store5 ''vendor1'' = 5500
     \<and> balanceOf store5 ''vendor1'' = 0 \<and> monthlySalesOf store5 ''vendor1'' ''2025-05'' = 0"
  by (simp add: scenario_defs handler_defs reading_defs)

lemma scenario_withdrawal_requested:
  "requestVendorWithdrawal (clockAt 4000) ''w1'' ''vendor1'' 2000 ''First Bank'' ''011''
     ''1234567890'' ''Vendor One'' store3 = (Inr (), storeW)"
  by (simp add: scenario_defs handler_defs)

lemma scenario_withdrawal_pending:
  "\<exists>w v. withdrawalRequest storeW ''w1'' = Some w \<and> wd_status w = ''pending''
      \<and> wd_vendorId w = ''vendor1'' \<and> wd_amount w = 2000
      \<and> users storeW ''vendor1'' = Some v"
  by (simp add: scenario_defs handler_defs)

lemma scenario_reserved:
  "eligibleBalanceOf storeW ''vendor1'' = 3500 \<and> balanceOf storeW ''vendor1'' = 5500"
  by (simp add: scenario_defs handler_defs reading_defs)

lemma scenario_signed_up:
  "addReferralForVendor (clockAt 1000) ''vendor1'' ''customer1'' store0 = (Inr (), storeR)"
  by (simp add: scenario_defs handler_defs)

subsection \<open>Settlement\<close>

text \<open>
  The expected total, the reward fields of the entry and the test for an undefined
  reward field do not read the fields that the handler overwrites.
\<close>

lemma expectedTotal_ignores [simp]:
  "expectedTotal (order\<lparr>vendorCommission := c\<rparr>) = expectedTotal order"
  "expectedTotal (order\<lparr>vendorEarnings := e\<rparr>) = expectedTotal order"
  "expectedTotal (order\<lparr>totalAmountPaid := t\<rparr>) = expectedTotal order"
  by (simp_all add: expectedTotal_def split: option.splits)

lemma rewardFields_ignores [simp]:
  "rewardFields (order\<lparr>vendorCommission := c\<rparr>) = rewardFields order"
  "rewardFields (order\<lparr>vendorEarnings := e\<rparr>) = rewardFields order"
  "rewardFields (order\<lparr>serviceFee := f\<rparr>) = rewardFields order"
  "rewardFields (order\<lparr>totalAmountPaid := t\<rparr>) = rewardFields order"
  by (simp_all add: rewardFields_def split: option.splits)

lemma undefinedRewardField_ignores [simp]:
  "undefinedRewardField (order\<lparr>vendorCommission := c\<rparr>) = undefinedRewardField order"
  "undefinedRewardField (order\<lparr>vendorEarnings := e\<rparr>) = undefinedRewardField order"
  "undefinedRewardField (order\<lparr>serviceFee := f\<rparr>) = undefinedRewardField order"
  "undefinedRewardField (order\<lparr>totalAmountPaid := t\<rparr>) = undefinedRewardField order"
  by (simp_all add: undefinedRewardField_def)

text \<open>The handler, with its local bindings unfolded.\<close>

lemma createOrder_unfold:
  "createOrderAndLogTransaction clock order uid reference status totalPaid s =
     (if vendorId order = [] \<or> orderId order = []
      then (Inl (HttpsError InvalidArgument ''Missing order details.'' None), s)
      else if \<bar>calculateServiceCharge (subtotal order) - serviceFee order\<bar> > 1
      then (Inl (HttpsError InvalidArgument ''Service fee mismatch.'' None), s)
      else if \<bar>totalPaid
                - expectedTotal (order\<lparr>serviceFee := calculateServiceCharge (subtotal order)\<rparr>)\<bar> > 1
      then (Inl (HttpsError InvalidArgument ''Total paid mismatch.'' None), s)
      else catch (\<lambda>error. HttpsError Internal ''Transaction failed'' (Some error))
             (runTransaction
               (createOrderAndLogTransaction_tx clock
                  (order\<lparr>serviceFee := calculateServiceCharge (subtotal order),
                          totalAmountPaid := totalPaid\<rparr>) uid reference status totalPaid) s))"
  by (simp add: createOrderAndLogTransaction_def Let_def)

text \<open>What the transaction of the settlement returns and writes, case by case.\<close>

lemma createOrder_run:
  "runTransaction (createOrderAndLogTransaction_tx clock order uid reference status totalPaid) s =
     (case orders s (orderId order) of
        Some d \<Rightarrow> (Inl (HttpsError AlreadyExists ''Order already exists.'' None), s)
      | None \<Rightarrow>
         (case users s (vendorId order) of
            None \<Rightarrow> (Inl (HttpsError NotFound ''Vendor not found.'' None), s)
          | Some u \<Rightarrow>
             if undefinedRewardField order
             then (Inl (JsError ''Cannot use undefined as a Firestore value''), s)
             else
             (Inr (),
              s\<lparr>orders := (orders s)(orderId order \<mapsto>
                   orderDocument (order\<lparr>vendorCommission := 0,
                      vendorEarnings := subtotal order + deliveryFee order - 0\<rparr>)),
                users := (users s)(vendorId order \<mapsto>
                   u\<lparr>wallet := (wallet u)
                        \<lparr>balance := Some (orZero (balance (wallet u))
                            + (subtotal order + deliveryFee order - 0)),
                         pendingBalance := Some (orZero (pendingBalance (wallet u))
                            + (subtotal order + deliveryFee order - 0)),
                         transactions := arrayUnion (transactions (wallet u))
                           \<lparr>tx_amount = subtotal order + deliveryFee order - 0,
                            tx_reference = reference,
                            tx_status = status,
                            tx_type = ''credit'',
                            tx_source = ''order'',
                            tx_vendorId = Some (vendorId order),
                            tx_userId = Some uid,
                            tx_createdAt = now clock,
                            tx_order = Some
                              \<lparr>tx_totalPaid = totalPaid,
                               tx_orderId = orderId order,
                               tx_subtotal = subtotal order,
                               tx_deliveryFee = deliveryFee order,
                               tx_serviceFee = serviceFee order,
                               tx_vendorCommission = 0,
                               tx_vendorEarnings = subtotal order + deliveryFee order - 0,
                               tx_commissionRate =
                                 getCommissionRate (orZero (monthlySales u (monthKey clock))),
                               tx_reward = rewardFields order\<rparr>\<rparr>\<rparr>,
                      monthlySales := (monthlySales u)(monthKey clock \<mapsto>
                         orZero (monthlySales u (monthKey clock))
                           + (subtotal order + deliveryFee order)),
                      user_updatedAt := Some (now clock)\<rparr>)\<rparr>)))"
  by (simp add: runTransaction_def createOrderAndLogTransaction_tx_def tx_simps Let_def
        split: option.splits)

lemma createOrder_success:
  assumes "createOrderAndLogTransaction clock order uid reference status totalPaid s = (Inr (), s1)"
  shows "vendorId order \<noteq> [] \<and> orderId order \<noteq> []
    \<and> \<bar>calculateServiceCharge (subtotal order) - serviceFee order\<bar> \<le> 1
    \<and> \<bar>totalPaid
         - expectedTotal (order\<lparr>serviceFee := calculateServiceCharge (subtotal order)\<rparr>)\<bar> \<le> 1
    \<and> runTransaction (createOrderAndLogTransaction_tx clock
          (order\<lparr>serviceFee := calculateServiceCharge (subtotal order),
                  totalAmountPaid := totalPaid\<rparr>)
          uid reference status totalPaid) s = (Inr (), s1)"
  using assms unfolding createOrder_unfold
  by (simp add: catch_Inr split: if_splits)

text \<open>
  A settlement succeeds when its checks pass, the order is new, the vendor exists and an
  order with a reward has all its reward fields.
\<close>

lemma createOrder_succeeds:
  assumes "vendorId order \<noteq> []" and "orderId order \<noteq> []"
    and "\<bar>calculateServiceCharge (subtotal order) - serviceFee order\<bar> \<le> 1"
    and "\<bar>totalPaid
          - expectedTotal (order\<lparr>serviceFee := calculateServiceCharge (subtotal order)\<rparr>)\<bar> \<le> 1"
    and "orders s (orderId order) = None" and "users s (vendorId order) = Some u"
    and "\<not> undefinedRewardField order"
  shows "\<exists>s1. createOrderAndLogTransaction clock order uid reference status totalPaid s
                = (Inr (), s1)"
  using assms
  by (simp add: createOrder_unfold createOrder_run catch_def)

lemma createOrder_persists:
  assumes "createOrderAndLogTransaction clock order uid reference status totalPaid s = (Inr (), s1)"
  shows "orders s1 (orderId order) \<noteq> None"
proof -
  have run: "runTransaction (createOrderAndLogTransaction_tx clock
          (order\<lparr>serviceFee := calculateServiceCharge (subtotal order),
                  totalAmountPaid := totalPaid\<rparr>)
          uid reference status totalPaid) s = (Inr (), s1)"
    using createOrder_success [OF assms] by simp
  then show ?thesis
    by (cases "orders s (orderId order)"; cases "users s (vendorId order)")
       (auto simp add: createOrder_run split: if_splits)
qed

lemma createOrder_existing:
  assumes "orders s (orderId order) \<noteq> None"
  shows "\<exists>e. createOrderAndLogTransaction clock order uid reference status totalPaid s = (Inl e, s)
     \<and> (error_code e = Some InvalidArgument
         \<or> e = HttpsError Internal ''Transaction failed''
                 (Some (HttpsError AlreadyExists ''Order already exists.'' None)))"
  using assms
  by (auto simp add: createOrder_unfold createOrder_run catch_Inl)

text \<open>
  After a successful settlement, the same call again (at any time, with any user id,
  reference and status) leaves the whole store as it is, and what the caller receives
  is the error \<open>internal\<close> ``Transaction failed'' that the catch of the handler makes of
  the \<open>already-exists\<close> error of the transaction.
\<close>

lemma createOrder_repeated:
  assumes "createOrderAndLogTransaction clock order uid reference status totalPaid s = (Inr (), s1)"
  shows "createOrderAndLogTransaction clock' order uid' reference' status' totalPaid s1
           = (Inl (HttpsError Internal ''Transaction failed''
                     (Some (HttpsError AlreadyExists ''Order already exists.'' None))), s1)"
proof -
  have ex: "orders s1 (orderId order) \<noteq> None"
    by (rule createOrder_persists [OF assms])
  have valid: "vendorId order \<noteq> [] \<and> orderId order \<noteq> []
    \<and> \<bar>calculateServiceCharge (subtotal order) - serviceFee order\<bar> \<le> 1
    \<and> \<bar>totalPaid
         - expectedTotal (order\<lparr>serviceFee := calculateServiceCharge (subtotal order)\<rparr>)\<bar> \<le> 1"
    using createOrder_success [OF assms] by simp
  show ?thesis
    using ex valid
    by (auto simp add: createOrder_unfold createOrder_run catch_Inl)
qed

text \<open>
  C3. Calling the settlement a second time with the same order id must leave the
  vendor's wallet state unchanged and raise \<open>already-exists\<close>. On the order of the
  scenario the first call succeeds and the second call leaves the store unchanged, but
  the error it raises has the code \<open>internal\<close>: the transaction throws \<open>already-exists\<close>
  ``Order already exists.'', the catch of the handler throws \<open>internal\<close> ``Transaction
  failed'' in its place and keeps the \<open>already-exists\<close> error only as details.
\<close>

theorem settlement_second_call_thrown_internal:
  "createOrderAndLogTransaction (clockAt 1000) order0 ''customer1'' ''ref1'' ''success'' 5875
     store0 = (Inr (), store1)
   \<and> createOrderAndLogTransaction (clockAt 9000) order0 ''customer1'' ''ref1'' ''success'' 5875
       store1
     = (Inl (HttpsError Internal ''Transaction failed''
               (Some (HttpsError AlreadyExists ''Order already exists.'' None))), store1)
   \<and> thrown_code (createOrderAndLogTransaction (clockAt 9000) order0 ''customer1'' ''ref1''
                    ''success'' 5875 store1) = Some Internal
   \<and> thrown_code (createOrderAndLogTransaction (clockAt 9000) order0 ''customer1'' ''ref1''
                    ''success'' 5875 store1) \<noteq> Some AlreadyExists"
  using scenario_settled
    createOrder_repeated [OF scenario_settled, where clock' = "clockAt 9000"
      and uid' = "''customer1''" and reference' = "''ref1''" and status' = "''success''"]
  by (simp add: thrown_code_def)

text \<open>
  C4. Every successful settlement of an order with subtotal \<open>S\<close> and delivery fee \<open>D\<close>
  persists the order with commission 0 and earnings \<open>S + D - commission\<close>, increases the
  vendor's pending balance and balance by exactly these earnings, and increases the
  sales of the current month by exactly \<open>S + D\<close>. (It holds whatever the prior balances
  are, non-negative or not.)
\<close>

theorem settlement_credits_vendor:
  assumes "createOrderAndLogTransaction clock order uid reference status totalPaid s = (Inr (), s1)"
  shows "(\<exists>d. orders s1 (orderId order) = Some d
            \<and> vendorCommission d = 0
            \<and> vendorEarnings d = subtotal order + deliveryFee order - vendorCommission d
            \<and> pendingBalanceOf s1 (vendorId order)
                = pendingBalanceOf s (vendorId order) + vendorEarnings d
            \<and> balanceOf s1 (vendorId order) = balanceOf s (vendorId order) + vendorEarnings d)
       \<and> monthlySalesOf s1 (vendorId order) (monthKey clock)
            = monthlySalesOf s (vendorId order) (monthKey clock)
              + (subtotal order + deliveryFee order)"
proof -
  have run: "runTransaction (createOrderAndLogTransaction_tx clock
          (order\<lparr>serviceFee := calculateServiceCharge (subtotal order),
                  totalAmountPaid := totalPaid\<rparr>)
          uid reference status totalPaid) s = (Inr (), s1)"
    using createOrder_success [OF assms] by simp
  show ?thesis
  proof (cases "orders s (orderId order)")
    case (Some d)
    with run show ?thesis by (simp add: createOrder_run)
  next
    case None
    note no_order = None
    show ?thesis
    proof (cases "users s (vendorId order)")
      case None
      with run no_order show ?thesis by (simp add: createOrder_run)
    next
      case (Some u)
      with run no_order show ?thesis
        by (auto simp add: createOrder_run pendingBalanceOf_def balanceOf_def monthlySalesOf_def
            orderDocument_def IncomingOrder.extend_def split: if_splits)
    qed
  qed
qed

theorem settlement_credits_vendor_witness:
  "createOrderAndLogTransaction (clockAt 1000) order0 ''customer1'' ''ref1'' ''success'' 5875
     store0 = (Inr (), store1)
   \<and> (\<exists>d. orders store1 ''order1'' = Some d \<and> vendorCommission d = 0 \<and> vendorEarnings d = 5500)
   \<and> pendingBalanceOf store0 ''vendor1'' = 0 \<and> pendingBalanceOf store1 ''vendor1'' = 5500
   \<and> balanceOf store0 ''vendor1'' = 0 \<and> balanceOf store1 ''vendor1'' = 5500
   \<and> monthlySalesOf store0 ''vendor1'' ''2025-05'' = 0
   \<and> monthlySalesOf store1 ''vendor1'' ''2025-05'' = 5500"
proof -
  have before: "pendingBalanceOf store0 ''vendor1'' = 0 \<and> balanceOf store0 ''vendor1'' = 0
      \<and> monthlySalesOf store0 ''vendor1'' ''2025-05'' = 0"
    by (simp add: reading_defs store0_def vendor0_def emptyWallet_def)
  show ?thesis
    using scenario_settled settlement_credits_vendor [OF scenario_settled] before
    by (auto simp add: order0_def clockAt_def)
qed

text \<open>The fields of the order that the client submits as commission and earnings are not read.\<close>

lemma createOrder_ignores:
  "createOrderAndLogTransaction clock (order\<lparr>vendorCommission := c, vendorEarnings := e\<rparr>)
      uid reference status totalPaid s
    = createOrderAndLogTransaction clock order uid reference status totalPaid s"
  by (simp add: createOrder_unfold createOrder_run expectedTotal_def
        cong: option.case_cong if_cong)

text \<open>What a successful settlement has written.\<close>

lemma createOrder_written:
  assumes "createOrderAndLogTransaction clock order uid reference status totalPaid s = (Inr (), s1)"
  shows "orders s1 (orderId order) = Some (orderDocument
             (order\<lparr>serviceFee := calculateServiceCharge (subtotal order),
                     totalAmountPaid := totalPaid,
                     vendorCommission := 0,
                     vendorEarnings := subtotal order + deliveryFee order\<rparr>))
       \<and> \<lparr>tx_amount = subtotal order + deliveryFee order,
           tx_reference = reference,
           tx_status = status,
           tx_type = ''credit'',
           tx_source = ''order'',
           tx_vendorId = Some (vendorId order),
           tx_userId = Some uid,
           tx_createdAt = now clock,
           tx_order = Some
             \<lparr>tx_totalPaid = totalPaid,
              tx_orderId = orderId order,
              tx_subtotal = subtotal order,
              tx_deliveryFee = deliveryFee order,
              tx_serviceFee = calculateServiceCharge (subtotal order),
              tx_vendorCommission = 0,
              tx_vendorEarnings = subtotal order + deliveryFee order,
              tx_commissionRate =
                getCommissionRate (monthlySalesOf s (vendorId order) (monthKey clock)),
              tx_reward = rewardFields order\<rparr>\<rparr>
           \<in> set (transactionsOf s1 (vendorId order))
       \<and> pendingBalanceOf s1 (vendorId order)
            = pendingBalanceOf s (vendorId order) + (subtotal order + deliveryFee order)
       \<and> balanceOf s1 (vendorId order)
            = balanceOf s (vendorId order) + (subtotal order + deliveryFee order)
       \<and> monthlySalesOf s1 (vendorId order) (monthKey clock)
            = monthlySalesOf s (vendorId order) (monthKey clock)
              + (subtotal order + deliveryFee order)"
proof -
  have run: "runTransaction (createOrderAndLogTransaction_tx clock
          (order\<lparr>serviceFee := calculateServiceCharge (subtotal order),
                  totalAmountPaid := totalPaid\<rparr>)
          uid reference status totalPaid) s = (Inr (), s1)"
    using createOrder_success [OF assms] by simp
  show ?thesis
  proof (cases "orders s (orderId order)")
    case (Some d)
    with run show ?thesis by (simp add: createOrder_run)
  next
    case None
    note no_order = None
    show ?thesis
    proof (cases "users s (vendorId order)")
      case None
      with run no_order show ?thesis by (simp add: createOrder_run)
    next
      case (Some u)
      with run no_order show ?thesis
        by (auto simp add: createOrder_run pendingBalanceOf_def balanceOf_def monthlySalesOf_def
            transactionsOf_def arrayUnion_def split: if_splits)
    qed
  qed
qed

text \<open>
  C10. Two settlement calls that differ only in the commission and the earnings that
  the client submits with the order return the same result and leave the same store.
  When they succeed, the persisted order is the submitted order with the server's
  service fee and total, commission 0 and earnings \<open>subtotal + deliveryFee\<close>; the ledger
  of the vendor holds the entry of the order with amount and earnings
  \<open>subtotal + deliveryFee\<close> and commission 0; and the pending balance, the balance and
  the monthly sales of the vendor have grown by \<open>subtotal + deliveryFee\<close>. The submitted
  values \<open>c1\<close>, \<open>e1\<close>, \<open>c2\<close>, \<open>e2\<close> occur in none of them.
\<close>

theorem settlement_ignores_client_earnings:
  "createOrderAndLogTransaction clock (order\<lparr>vendorCommission := c1, vendorEarnings := e1\<rparr>)
      uid reference status totalPaid s
   = createOrderAndLogTransaction clock (order\<lparr>vendorCommission := c2, vendorEarnings := e2\<rparr>)
      uid reference status totalPaid s
   \<and> (createOrderAndLogTransaction clock (order\<lparr>vendorCommission := c1, vendorEarnings := e1\<rparr>)
         uid reference status totalPaid s = (Inr (), s1) \<longrightarrow>
       (\<exists>d. orders s1 (orderId order) = Some d
            \<and> d = orderDocument
                    (order\<lparr>serviceFee := calculateServiceCharge (subtotal order),
                            totalAmountPaid := totalPaid,
                            vendorCommission := 0,
                            vendorEarnings := subtotal order + deliveryFee order\<rparr>)
            \<and> vendorCommission d = 0
            \<and> vendorEarnings d = subtotal order + deliveryFee order)
       \<and> \<lparr>tx_amount = subtotal order + deliveryFee order,
           tx_reference = reference,
           tx_status = status,
           tx_type = ''credit'',
           tx_source = ''order'',
           tx_vendorId = Some (vendorId order),
           tx_userId = Some uid,
           tx_createdAt = now clock,
           tx_order = Some
             \<lparr>tx_totalPaid = totalPaid,
              tx_orderId = orderId order,
              tx_subtotal = subtotal order,
              tx_deliveryFee = deliveryFee order,
              tx_serviceFee = calculateServiceCharge (subtotal order),
              tx_vendorCommission = 0,
              tx_vendorEarnings = subtotal order + deliveryFee order,
              tx_commissionRate =
                getCommissionRate (monthlySalesOf s (vendorId order) (monthKey clock)),
              tx_reward = rewardFields order\<rparr>\<rparr>
           \<in> set (transactionsOf s1 (vendorId order))
       \<and> pendingBalanceOf s1 (vendorId order)
            = pendingBalanceOf s (vendorId order) + (subtotal order + deliveryFee order)
       \<and> balanceOf s1 (vendorId order)
            = balanceOf s (vendorId order) + (subtotal order + deliveryFee order)
       \<and> monthlySalesOf s1 (vendorId order) (monthKey clock)
            = monthlySalesOf s (vendorId order) (monthKey clock)
              + (subtotal order + deliveryFee order))"
proof -
  have same: "createOrderAndLogTransaction clock
        (order\<lparr>vendorCommission := c1, vendorEarnings := e1\<rparr>) uid reference status totalPaid s
      = createOrderAndLogTransaction clock
        (order\<lparr>vendorCommission := c2, vendorEarnings := e2\<rparr>) uid reference status totalPaid s"
    by (simp only: createOrder_ignores)
  have written: "\<exists>d. orders s1 (orderId order) = Some d
            \<and> d = orderDocument
                    (order\<lparr>serviceFee := calculateServiceCharge (subtotal order),
                            totalAmountPaid := totalPaid,
                            vendorCommission := 0,
                            vendorEarnings := subtotal order + deliveryFee order\<rparr>)
            \<and> vendorCommission d = 0
            \<and> vendorEarnings d = subtotal order + deliveryFee order"
    if "createOrderAndLogTransaction clock order uid reference status totalPaid s = (Inr (), s1)"
    using createOrder_written [OF that]
    by (simp add: orderDocument_def IncomingOrder.extend_def)
  show ?thesis
    using same written createOrder_written [of clock order uid reference status totalPaid s s1]
    by (simp add: createOrder_ignores)
qed

theorem settlement_ignores_client_earnings_witness:
  "createOrderAndLogTransaction (clockAt 1000)
      (order0\<lparr>vendorCommission := 999, vendorEarnings := 1000000\<rparr>)
      ''customer1'' ''ref1'' ''success'' 5875 store0
    = createOrderAndLogTransaction (clockAt 1000)
      (order0\<lparr>vendorCommission := 0, vendorEarnings := 5500\<rparr>)
      ''customer1'' ''ref1'' ''success'' 5875 store0
   \<and> createOrderAndLogTransaction (clockAt 1000)
      (order0\<lparr>vendorCommission := 999, vendorEarnings := 1000000\<rparr>)
      ''customer1'' ''ref1'' ''success'' 5875 store0 = (Inr (), store1)
   \<and> map_option vendorCommission (orders store1 ''order1'') = Some 0
   \<and> map_option vendorEarnings (orders store1 ''order1'') = Some 5500
   \<and> map tx_amount (transactionsOf store1 ''vendor1'') = [5500]
   \<and> map (map_option tx_vendorCommission \<circ> tx_order) (transactionsOf store1 ''vendor1'')
        = [Some 0]
   \<and> map (map_option tx_vendorEarnings \<circ> tx_order) (transactionsOf store1 ''vendor1'')
        = [Some 5500]
   \<and> pendingBalanceOf store1 ''vendor1'' = 5500
   \<and> balanceOf store1 ''vendor1'' = 5500
   \<and> monthlySalesOf store1 ''vendor1'' ''2025-05'' = 5500"
proof -
  have run: "createOrderAndLogTransaction (clockAt 1000)
      (order0\<lparr>vendorCommission := 999, vendorEarnings := 1000000\<rparr>)
      ''customer1'' ''ref1'' ''success'' 5875 store0 = (Inr (), store1)"
    using scenario_settled by (simp add: createOrder_ignores)
  have before: "pendingBalanceOf store0 ''vendor1'' = 0 \<and> balanceOf store0 ''vendor1'' = 0
      \<and> monthlySalesOf store0 ''vendor1'' ''2025-05'' = 0"
    by (simp add: reading_defs store0_def vendor0_def emptyWallet_def)
  have ledger: "transactionsOf store1 ''vendor1'' =
      [\<lparr>tx_amount = 5500, tx_reference = ''ref1'', tx_status = ''success'',
        tx_type = ''credit'', tx_source = ''order'', tx_vendorId = Some ''vendor1'',
        tx_userId = Some ''customer1'', tx_createdAt = 1000,
        tx_order = Some
          \<lparr>tx_totalPaid = 5875, tx_orderId = ''order1'', tx_subtotal = 5000,
           tx_deliveryFee = 500, tx_serviceFee = 375, tx_vendorCommission = 0,
           tx_vendorEarnings = 5500, tx_commissionRate = 7 / 100, tx_reward = None\<rparr>\<rparr>]"
    by (simp add: scenario_defs handler_defs reading_defs)
  show ?thesis
    using run before ledger
      settlement_ignores_client_earnings [where clock = "clockAt 1000" and order = order0
        and ?c1.0 = 999 and ?e1.0 = 1000000 and ?c2.0 = 0 and ?e2.0 = 5500
        and uid = "''customer1''" and reference = "''ref1''" and status = "''success''"
        and totalPaid = 5875 and s = store0 and ?s1.0 = store1]
    by (auto simp add: order0_def clockAt_def)
qed

subsection \<open>Delivery confirmation\<close>

text \<open>What the transaction of the delivery confirmation returns and writes, case by case.\<close>

lemma confirmOrder_run:
  "runTransaction (confirmOrderWithOTP_tx clock oid vid enteredOtp) s =
     (case orders s oid of
        None \<Rightarrow> (Inl (HttpsError NotFound ''Order not found.'' None), s)
      | Some od \<Rightarrow>
         (case users s vid of
            None \<Rightarrow> (Inl (HttpsError NotFound ''Vendor not found.'' None), s)
          | Some v \<Rightarrow>
              if (case deliveryCodeExpiresAt od of None \<Rightarrow> False | Some t \<Rightarrow> now clock > t)
              then (Inl (HttpsError DeadlineExceeded ''OTP has expired.'' None), s)
              else if deliveryConfirmed od = Some True
              then (Inl (HttpsError AlreadyExists ''Delivery already confirmed.'' None), s)
              else if Some enteredOtp \<noteq> deliveryCode od
              then (Inl (HttpsError PermissionDenied ''Incorrect OTP.'' None), s)
              else if vendorEarnings od > orZero (pendingBalance (wallet v))
              then (Inl (HttpsError FailedPrecondition ''Pending balance too low.'' None), s)
              else (Inr (),
                    s\<lparr>users := (users s)(vid \<mapsto>
                         v\<lparr>wallet := (wallet v)
                              \<lparr>pendingBalance :=
                                 Some (orZero (pendingBalance (wallet v)) - vendorEarnings od),
                               eligibleBalance :=
                                 Some (orZero (eligibleBalance (wallet v)) + vendorEarnings od)\<rparr>,
                            user_updatedAt := Some (now clock)\<rparr>),
                      orders := (orders s)(oid \<mapsto>
                         od\<lparr>deliveryConfirmed := Some True,
                             orderStatus := ''completed'',
                             reviewed := Some False,
                             updatedAt := now clock,
                             timeline := arrayUnion (timeline od)
                               \<lparr>tl_status = ''Order completed'',
                                tl_timestamp = now clock + 60 * 60 * 1000,
                                tl_actor = ''vendor''\<rparr>\<rparr>)\<rparr>)))"
  by (simp add: runTransaction_def confirmOrderWithOTP_tx_def tx_simps Let_def
        split: option.splits)

text \<open>
  What the handler does for an order with a stored delivery code \<open>c\<close> and expiry \<open>t\<close>
  and an existing user \<open>vid\<close>, the one that the call names as the vendor (the handler
  does not compare it with the vendor of the order). Confirming with \<open>c\<close> no later than
  \<open>t\<close>, while the order is not yet confirmed and the pending balance of \<open>vid\<close> covers
  the earnings of the order, succeeds and moves exactly the order's \<open>vendorEarnings\<close>
  from the pending to the eligible balance of \<open>vid\<close>; the same call again leaves the
  store unchanged and throws \<open>internal\<close> ``OTP confirmation failed'', whose details are
  \<open>already-exists\<close> while the code has not expired and \<open>deadline-exceeded\<close> once it has.
  A confirmation after \<open>t\<close> with the matching code leaves the store unchanged and throws
  \<open>internal\<close> with \<open>deadline-exceeded\<close> as details.
\<close>

lemma delivery_release:
  assumes "orders s oid = Some od" and "deliveryCode od = Some c"
    and "deliveryCodeExpiresAt od = Some t" and "users s vid = Some v"
    and "oid \<noteq> []" and "vid \<noteq> []" and "c \<noteq> []"
  shows "(now clock \<le> t \<and> deliveryConfirmed od \<noteq> Some True
            \<and> vendorEarnings od \<le> pendingBalanceOf s vid \<longrightarrow>
          (\<exists>s1. confirmOrderWithOTP clock oid vid c s = (Inr (), s1)
             \<and> pendingBalanceOf s1 vid = pendingBalanceOf s vid - vendorEarnings od
             \<and> eligibleBalanceOf s1 vid = eligibleBalanceOf s vid + vendorEarnings od
             \<and> (\<forall>clock'. confirmOrderWithOTP clock' oid vid c s1 =
                   (Inl (HttpsError Internal ''OTP confirmation failed''
                      (Some (if now clock' > t
                             then HttpsError DeadlineExceeded ''OTP has expired.'' None
                             else HttpsError AlreadyExists ''Delivery already confirmed.'' None))),
                    s1))))
       \<and> (now clock > t \<longrightarrow>
            confirmOrderWithOTP clock oid vid c s =
              (Inl (HttpsError Internal ''OTP confirmation failed''
                 (Some (HttpsError DeadlineExceeded ''OTP has expired.'' None))), s))"
  using assms
  by (auto simp add: confirmOrderWithOTP_def confirmOrder_run catch_def
        pendingBalanceOf_def eligibleBalanceOf_def)

text \<open>
  C5. Confirming a delivery with the correct, unexpired code must move exactly the
  order's \<open>vendorEarnings\<close> from the pending to the eligible balance and must not be
  repeatable (\<open>already-exists\<close>), and a confirmation after the expiry must fail
  \<open>deadline-exceeded\<close> even with the matching code. On the order of the scenario the
  confirmation moves 5500 from the pending to the eligible balance, and both the second
  attempt and the confirmation after the expiry fail and change nothing; but the error
  that each of them raises has the code \<open>internal\<close>: the transaction throws
  \<open>already-exists\<close> and \<open>deadline-exceeded\<close>, the catch of the handler throws \<open>internal\<close>
  ``OTP confirmation failed'' in their place and keeps them only as details.
\<close>

theorem delivery_confirmation_thrown_internal:
  "confirmOrderWithOTP (clockAt 3000) ''order1'' ''vendor1'' ''5500'' store2 = (Inr (), store3)
   \<and> pendingBalanceOf store2 ''vendor1'' = 5500 \<and> pendingBalanceOf store3 ''vendor1'' = 0
   \<and> eligibleBalanceOf store2 ''vendor1'' = 0 \<and> eligibleBalanceOf store3 ''vendor1'' = 5500
   \<and> confirmOrderWithOTP (clockAt 4000) ''order1'' ''vendor1'' ''5500'' store3 =
        (Inl (HttpsError Internal ''OTP confirmation failed''
           (Some (HttpsError AlreadyExists ''Delivery already confirmed.'' None))), store3)
   \<and> thrown_code (confirmOrderWithOTP (clockAt 4000) ''order1'' ''vendor1'' ''5500'' store3)
        = Some Internal
   \<and> thrown_code (confirmOrderWithOTP (clockAt 4000) ''order1'' ''vendor1'' ''5500'' store3)
        \<noteq> Some AlreadyExists
   \<and> confirmOrderWithOTP (clockAt 300000000) ''order1'' ''vendor1'' ''5500'' store2 =
        (Inl (HttpsError Internal ''OTP confirmation failed''
           (Some (HttpsError DeadlineExceeded ''OTP has expired.'' None))), store2)
   \<and> thrown_code (confirmOrderWithOTP (clockAt 300000000) ''order1'' ''vendor1'' ''5500'' store2)
        = Some Internal
   \<and> thrown_code (confirmOrderWithOTP (clockAt 300000000) ''order1'' ''vendor1'' ''5500'' store2)
        \<noteq> Some DeadlineExceeded"
proof -
  obtain od where od: "orders store2 ''order1'' = Some od" "deliveryCode od = Some ''5500''"
      "deliveryCodeExpiresAt od = Some 259202000" "deliveryConfirmed od = Some False"
      "vendorEarnings od = 5500"
    using scenario_order_with_code by blast
  obtain v where v: "users store2 ''vendor1'' = Some v" "pendingBalance (wallet v) = Some 5500"
      "eligibleBalance (wallet v) = None"
    using scenario_vendor_credited by blast
  have before: "pendingBalanceOf store2 ''vendor1'' = 5500"
      "eligibleBalanceOf store2 ''vendor1'' = 0"
    using v by (simp_all add: reading_defs)
  have ne: "''order1'' \<noteq> []" "''vendor1'' \<noteq> []" "''5500'' \<noteq> []"
    by simp_all
  note release = delivery_release [OF od(1,2,3) v(1) ne]
  have early: "now (clockAt 3000) \<le> 259202000 \<and> deliveryConfirmed od \<noteq> Some True
      \<and> vendorEarnings od \<le> pendingBalanceOf store2 ''vendor1''"
    using od before by (simp add: clockAt_def)
  with release [where clock = "clockAt 3000"] obtain s1 where s1:
      "confirmOrderWithOTP (clockAt 3000) ''order1'' ''vendor1'' ''5500'' store2 = (Inr (), s1)"
      "pendingBalanceOf s1 ''vendor1'' = pendingBalanceOf store2 ''vendor1'' - vendorEarnings od"
      "eligibleBalanceOf s1 ''vendor1'' = eligibleBalanceOf store2 ''vendor1'' + vendorEarnings od"
      "\<forall>clock'. confirmOrderWithOTP clock' ''order1'' ''vendor1'' ''5500'' s1 =
         (Inl (HttpsError Internal ''OTP confirmation failed''
            (Some (if now clock' > 259202000
                   then HttpsError DeadlineExceeded ''OTP has expired.'' None
                   else HttpsError AlreadyExists ''Delivery already confirmed.'' None))), s1)"
    by blast
  have same: "s1 = store3"
    using s1(1) scenario_delivered by simp
  have again: "confirmOrderWithOTP (clockAt 4000) ''order1'' ''vendor1'' ''5500'' store3 =
        (Inl (HttpsError Internal ''OTP confirmation failed''
           (Some (HttpsError AlreadyExists ''Delivery already confirmed.'' None))), store3)"
    using s1(4) same by (simp add: clockAt_def)
  have late: "confirmOrderWithOTP (clockAt 300000000) ''order1'' ''vendor1'' ''5500'' store2 =
        (Inl (HttpsError Internal ''OTP confirmation failed''
           (Some (HttpsError DeadlineExceeded ''OTP has expired.'' None))), store2)"
    using release [where clock = "clockAt 300000000"] by (simp add: clockAt_def)
  show ?thesis
    using od scenario_delivered before s1(2,3) same again late
    by (simp add: thrown_code_def)
qed

subsection \<open>Withdrawals\<close>

text \<open>What the transaction of a withdrawal request returns and writes, case by case.\<close>

lemma request_run:
  "runTransaction
     (requestVendorWithdrawal_tx clock newId vid amount bankName bCode accNumber accName) s =
     (case users s vid of
        None \<Rightarrow> (Inl (HttpsError NotFound ''Vendor not found.'' None), s)
      | Some v \<Rightarrow>
          if orZero (eligibleBalance (wallet v)) < amount
          then (Inl (HttpsError FailedPrecondition ''Insufficient eligible balance.'' None), s)
          else (Inr (),
                s\<lparr>users := (users s)(vid \<mapsto>
                  v\<lparr>wallet := (wallet v)
                       \<lparr>eligibleBalance := Some (orZero (eligibleBalance (wallet v)) - amount)\<rparr>,
                     user_updatedAt := Some (now clock)\<rparr>),
                withdrawalRequest := (withdrawalRequest s)(newId \<mapsto>
                  \<lparr>wd_vendorId = vid, wd_amount = amount, wd_bankName = bankName,
                   wd_bankCode = bCode, wd_accountNumber = accNumber, wd_accountName = accName,
                   wd_status = ''pending'', wd_requestedAt = now clock,
                   wd_transferReference = None, wd_approvedAt = None,
                   wd_rejectionReason = None, wd_reviewedAt = None\<rparr>)\<rparr>))"
  by (simp add: runTransaction_def requestVendorWithdrawal_tx_def tx_simps Let_def
        split: option.splits)

text \<open>
  A withdrawal that is requested and then rejected gives the reserved amount back: the
  eligible balance is what it was before the request.
\<close>

lemma withdrawal_request_reject_roundtrip:
  assumes "requestVendorWithdrawal clock newId vid amount bankName bCode accNumber accName s
             = (Inr (), s1)"
    and "newId \<noteq> []"
  shows "\<exists>s2. rejectVendorWithdrawal clock' newId reason s1 = (Inr (), s2)
           \<and> eligibleBalanceOf s1 vid = eligibleBalanceOf s vid - amount
           \<and> eligibleBalanceOf s2 vid = eligibleBalanceOf s vid"
proof -
  have run: "runTransaction
     (requestVendorWithdrawal_tx clock newId vid amount bankName bCode accNumber accName) s
       = (Inr (), s1)"
    using assms(1) by (simp add: requestVendorWithdrawal_def catch_Inr split: if_splits)
  show ?thesis
  proof (cases "users s vid")
    case None
    with run show ?thesis by (simp add: request_run)
  next
    case (Some v)
    with run have s1: "s1 = s\<lparr>users := (users s)(vid \<mapsto>
                  v\<lparr>wallet := (wallet v)
                       \<lparr>eligibleBalance := Some (orZero (eligibleBalance (wallet v)) - amount)\<rparr>,
                     user_updatedAt := Some (now clock)\<rparr>),
                withdrawalRequest := (withdrawalRequest s)(newId \<mapsto>
                  \<lparr>wd_vendorId = vid, wd_amount = amount, wd_bankName = bankName,
                   wd_bankCode = bCode, wd_accountNumber = accNumber, wd_accountName = accName,
                   wd_status = ''pending'', wd_requestedAt = now clock,
                   wd_transferReference = None, wd_approvedAt = None,
                   wd_rejectionReason = None, wd_reviewedAt = None\<rparr>)\<rparr>"
      by (simp add: request_run split: if_splits)
    show ?thesis
      using assms(2) Some
      by (simp add: s1 rejectVendorWithdrawal_def rejectVendorWithdrawal_tx_def
          runTransaction_def catch_def tx_simps Let_def eligibleBalanceOf_def)
  qed
qed


lemma approveWithdrawal_gateway_failure:
  assumes "withdrawalRequest s wid = Some w" and "wd_status w = ''pending''"
    and "users s (wd_vendorId w) = Some v"
    and "(\<forall>h r. transferrecipient gw h r = None) \<or> (\<forall>h b. transfer gw h b = None)"
  shows "\<exists>es e. approveVendorWithdrawal_tx env gw clock wid isLive s = (es, Some e)"
  using assms
  by (auto simp add: approveVendorWithdrawal_tx_def tx_simps Let_def
        split: option.splits sum.splits)

text \<open>
  C7. For a pending withdrawal request of an existing vendor, when the gateway fails
  (creating the recipient fails, or the transfer fails), the approval throws \<open>internal\<close>
  ``Approval failed.'' and the store is unchanged: the request is still pending and the
  vendor's wallet is as before, so the eligible balance that the request reserved is
  not given back.
\<close>

theorem withdrawal_payout_failure:
  assumes "withdrawalRequest s wid = Some w" and "wd_status w = ''pending''"
    and "users s (wd_vendorId w) = Some v" and "wid \<noteq> []"
    and "(\<forall>h r. transferrecipient gw h r = None) \<or> (\<forall>h b. transfer gw h b = None)"
  shows "approveVendorWithdrawal env gw clock wid isLive s
           = (Inl (HttpsError Internal ''Approval failed.'' None), s)
         \<and> withdrawalRequest (snd (approveVendorWithdrawal env gw clock wid isLive s)) wid = Some w
         \<and> users (snd (approveVendorWithdrawal env gw clock wid isLive s)) (wd_vendorId w) = Some v
         \<and> eligibleBalanceOf (snd (approveVendorWithdrawal env gw clock wid isLive s)) (wd_vendorId w)
             = eligibleBalanceOf s (wd_vendorId w)"
proof -
  obtain es e where "approveVendorWithdrawal_tx env gw clock wid isLive s = (es, Some e)"
    using approveWithdrawal_gateway_failure [OF assms(1,2,3,5)] by blast
  then have "approveVendorWithdrawal env gw clock wid isLive s
           = (Inl (HttpsError Internal ''Approval failed.'' None), s)"
    using assms(4) by (simp add: approveVendorWithdrawal_def runTransaction_def catch_def)
  then show ?thesis using assms by simp
qed

theorem withdrawal_payout_failure_witness:
  "requestVendorWithdrawal (clockAt 4000) ''w1'' ''vendor1'' 2000 ''First Bank'' ''011''
     ''1234567890'' ''Vendor One'' store3 = (Inr (), storeW)
   \<and> eligibleBalanceOf store3 ''vendor1'' = 5500
   \<and> (\<exists>w v. withdrawalRequest storeW ''w1'' = Some w \<and> wd_status w = ''pending''
         \<and> users storeW (wd_vendorId w) = Some v)
   \<and> approveVendorWithdrawal env0 gatewayDown (clockAt 5000) ''w1'' False storeW
       = (Inl (HttpsError Internal ''Approval failed.'' None), storeW)
   \<and> eligibleBalanceOf storeW ''vendor1'' = 3500"
proof -
  obtain w v where w: "withdrawalRequest storeW ''w1'' = Some w" "wd_status w = ''pending''"
      "wd_vendorId w = ''vendor1''" "users storeW ''vendor1'' = Some v"
    using scenario_withdrawal_pending by blast
  have v: "users storeW (wd_vendorId w) = Some v"
    using w by simp
  have ne: "''w1'' \<noteq> []"
    by simp
  have down: "(\<forall>h r. transferrecipient gatewayDown h r = None)
      \<or> (\<forall>h b. transfer gatewayDown h b = None)"
    by (simp add: gatewayDown_def)
  show ?thesis
    using withdrawal_payout_failure [OF w(1,2) v ne down, of env0 "clockAt 5000" False]
      scenario_withdrawal_requested scenario_released scenario_reserved w v
    by auto
qed

subsection \<open>Refunds\<close>

text \<open>
  The approval of a refund succeeds when the request is pending, the customer has
  complete bank details, the vendor exists, the secret key is set and the gateway
  answers both requests.
\<close>

lemma approveRefund_succeeds:
  assumes "refundRequests s oid = Some r" and "rf_status r = ''pending''"
    and "users s uid = Some u" and "paymentInfo u = Some b"
    and "accountNumber b \<noteq> []" and "accountName b \<noteq> []" and "bankCode b \<noteq> []"
    and "users s (rf_vendorId r) = Some v"
    and "getPaystackHeaders env isLive = Inr h"
    and "\<forall>p. transferrecipient gw h p \<noteq> None" and "\<forall>p. transfer gw h p \<noteq> None"
    and "oid \<noteq> []" and "uid \<noteq> []" and "amount \<noteq> 0"
  shows "\<exists>s1. approveRefundRequest env gw clock oid uid amount isLive s = (Inr (), s1)"
proof -
  obtain rc where rc: "transferrecipient gw h
      \<lparr>rc_type = ''nuban'', rc_name = accountName b, rc_account_number = accountNumber b,
       rc_bank_code = bankCode b, rc_currency = ''NGN''\<rparr> = Some rc"
    using assms(10) by (meson option.exhaust)
  obtain tr where tr: "transfer gw h
      \<lparr>tr_source = ''balance'', tr_amount = calculateAmount (rf_amount r), tr_recipient = rc,
       tr_reason = RefundForOrder oid\<rparr> = Some tr"
    using assms(11) by (meson option.exhaust)
  show ?thesis
    using assms(1-9,12-14) rc tr
    by (simp add: approveRefundRequest_def approveRefundRequest_tx_def runTransaction_def
          catch_def tx_simps Let_def bankDetailsMissing_def)
qed

text \<open>
  C8. Approving a pending refund whose record holds the earnings \<open>E\<close>, the subtotal \<open>S\<close>
  and the delivery fee \<open>D\<close> decrements the vendor's balance and pending balance by
  exactly \<open>E\<close> each, leaves the eligible balance as it is, and sets the vendor's sales of
  the current month to the previous sales minus \<open>S + D\<close>, or to 0 when that is negative.
\<close>

theorem refund_debits_vendor:
  assumes "approveRefundRequest env gw clock oid uid amount isLive s = (Inr (), s1)"
    and "refundRequests s oid = Some r"
  shows "balanceOf s1 (rf_vendorId r) = balanceOf s (rf_vendorId r) - rf_vendorEarnings r
       \<and> pendingBalanceOf s1 (rf_vendorId r)
            = pendingBalanceOf s (rf_vendorId r) - rf_vendorEarnings r
       \<and> eligibleBalanceOf s1 (rf_vendorId r) = eligibleBalanceOf s (rf_vendorId r)
       \<and> monthlySalesOf s1 (rf_vendorId r) (monthKey clock)
            = max (monthlySalesOf s (rf_vendorId r) (monthKey clock)
                     - (rf_subtotal r + rf_deliveryFee r)) 0"
proof -
  have run: "runTransaction (approveRefundRequest_tx env gw clock oid uid amount isLive) s
      = (Inr (), s1)"
    using assms(1) by (simp add: approveRefundRequest_def catch_Inr split: if_splits)
  show ?thesis
    using run assms(2)
    by (auto simp add: runTransaction_def approveRefundRequest_tx_def tx_simps Let_def
          balanceOf_def pendingBalanceOf_def eligibleBalanceOf_def monthlySalesOf_def
          split: option.splits sum.splits if_splits prod.splits)
qed

theorem refund_debits_vendor_witness:
  "approveRefundRequest env0 gateway0 (clockAt 5000) ''order1'' ''customer1'' 5875 False store4
     = (Inr (), store5)
   \<and> (\<exists>r. refundRequests store4 ''order1'' = Some r \<and> rf_vendorId r = ''vendor1''
         \<and> rf_vendorEarnings r = 5500 \<and> rf_subtotal r = 5000 \<and> rf_deliveryFee r = 500)
   \<and> balanceOf store4 ''vendor1'' = 5500 \<and> balanceOf store5 ''vendor1'' = 0
   \<and> pendingBalanceOf store4 ''vendor1'' = 0 \<and> pendingBalanceOf store5 ''vendor1'' = - 5500
   \<and> eligibleBalanceOf store4 ''vendor1'' = 5500 \<and> eligibleBalanceOf store5 ''vendor1'' = 5500
   \<and> monthlySalesOf store4 ''vendor1'' ''2025-05'' = 5500
   \<and> monthlySalesOf store5 ''vendor1'' ''2025-05'' = 0"
proof -
  obtain r where r: "refundRequests store4 ''order1'' = Some r" "rf_vendorId r = ''vendor1''"
      "rf_vendorEarnings r = 5500" "rf_subtotal r = 5000" "rf_deliveryFee r = 500"
    using scenario_refund_pending by blast
  show ?thesis
    using refund_debits_vendor [OF scenario_refund_approved r(1)] r scenario_refund_approved
      scenario_before_refund
    by (auto simp add: clockAt_def)
qed

subsection \<open>Where the balances stay non-negative\<close>

text \<open>
  The operations that guard their subtraction keep the pending and the eligible balance
  non-negative: the request of a withdrawal (whatever the amount), the approval of a
  withdrawal (it touches neither of the two), and the delivery confirmation and the
  settlement when the earnings of the order are not negative.
\<close>

lemma withdrawal_request_nonnegative:
  assumes "requestVendorWithdrawal clock newId vid amount bankName bCode accNumber accName s
             = (Inr (), s1)"
    and "0 \<le> pendingBalanceOf s vid" and "0 \<le> eligibleBalanceOf s vid"
  shows "pendingBalanceOf s1 vid = pendingBalanceOf s vid
       \<and> eligibleBalanceOf s1 vid = eligibleBalanceOf s vid - amount
       \<and> 0 \<le> eligibleBalanceOf s1 vid"
proof -
  have run: "runTransaction
     (requestVendorWithdrawal_tx clock newId vid amount bankName bCode accNumber accName) s
       = (Inr (), s1)"
    using assms(1) by (simp add: requestVendorWithdrawal_def catch_Inr split: if_splits)
  then show ?thesis
    by (cases "users s vid")
       (auto simp add: request_run pendingBalanceOf_def eligibleBalanceOf_def split: if_splits)
qed

lemma withdrawal_approval_keeps_balances:
  assumes "approveVendorWithdrawal env gw clock wid isLive s = (Inr (), s1)"
  shows "pendingBalanceOf s1 vid = pendingBalanceOf s vid
       \<and> eligibleBalanceOf s1 vid = eligibleBalanceOf s vid"
  using assms
  by (auto simp add: approveVendorWithdrawal_def approveVendorWithdrawal_tx_def
        runTransaction_def catch_def tx_simps Let_def pendingBalanceOf_def eligibleBalanceOf_def
        split: if_splits option.splits sum.splits)

lemma delivery_release_nonnegative:
  assumes "confirmOrderWithOTP clock oid vid otp s = (Inr (), s1)"
    and "orders s oid = Some od" and "0 \<le> vendorEarnings od"
    and "0 \<le> eligibleBalanceOf s vid"
  shows "0 \<le> pendingBalanceOf s1 vid \<and> 0 \<le> eligibleBalanceOf s1 vid"
  using assms
  by (auto simp add: confirmOrderWithOTP_def confirmOrder_run catch_def
        pendingBalanceOf_def eligibleBalanceOf_def split: if_splits option.splits)

lemma settlement_nonnegative:
  assumes "createOrderAndLogTransaction clock order uid reference status totalPaid s = (Inr (), s1)"
    and "0 \<le> subtotal order + deliveryFee order"
    and "0 \<le> pendingBalanceOf s (vendorId order)" and "0 \<le> eligibleBalanceOf s (vendorId order)"
  shows "0 \<le> pendingBalanceOf s1 (vendorId order) \<and> 0 \<le> eligibleBalanceOf s1 (vendorId order)"
proof -
  have run: "runTransaction (createOrderAndLogTransaction_tx clock
          (order\<lparr>serviceFee := calculateServiceCharge (subtotal order),
                  totalAmountPaid := totalPaid\<rparr>)
          uid reference status totalPaid) s = (Inr (), s1)"
    using createOrder_success [OF assms(1)] by simp
  show ?thesis
    using run assms(2,3,4)
    by (cases "orders s (orderId order)"; cases "users s (vendorId order)")
       (auto simp add: createOrder_run pendingBalanceOf_def eligibleBalanceOf_def
          split: if_splits)
qed

text \<open>
  C2 fails on the approval of a refund. The scenario is the ordinary life of an order:
  it is settled, the delivery is confirmed (the earnings move from the pending to the
  eligible balance), the customer asks for a refund, and the refund is approved. Every
  step succeeds; before the approval both balances are non-negative, after it the
  pending balance is \<open>- 5500\<close>. The approval subtracts the earnings from the pending
  balance without the guard that the delivery confirmation has and without the floor
  that it applies to the monthly sales two lines further.
\<close>

theorem refund_after_release_negative_pending:
  "createOrderAndLogTransaction (clockAt 1000) order0 ''customer1'' ''ref1'' ''success'' 5875
     store0 = (Inr (), store1)
   \<and> generateDeliveryCode (clockAt 2000) (1 / 2) ''order1'' store1 = (Inr ''5500'', store2)
   \<and> confirmOrderWithOTP (clockAt 3000) ''order1'' ''vendor1'' ''5500'' store2 = (Inr (), store3)
   \<and> requestRefund (clockAt 4000) ''order1'' ''customer1'' ''vendor1'' 5875 5000 500 (Some 375)
       5500 5875 ''item missing'' store3 = (Inr (), store4)
   \<and> 0 \<le> pendingBalanceOf store4 ''vendor1'' \<and> 0 \<le> eligibleBalanceOf store4 ''vendor1''
   \<and> approveRefundRequest env0 gateway0 (clockAt 5000) ''order1'' ''customer1'' 5875 False store4
       = (Inr (), store5)
   \<and> pendingBalanceOf store5 ''vendor1'' = - 5500
   \<and> pendingBalanceOf store5 ''vendor1'' < 0"
  using scenario_settled scenario_code_generated scenario_delivered scenario_refund_requested
    scenario_before_refund scenario_refund_approved scenario_after_refund
  by simp

subsection \<open>Referrals\<close>

text \<open>What a signup returns and writes, case by case.\<close>

lemma addReferral_run:
  assumes "vid \<noteq> []" and "customer \<noteq> []"
  shows "addReferralForVendor clock vid customer s =
     (case vendors s vid of
        None \<Rightarrow> (Inl (HttpsError Internal ''Failed to add referral''
                        (Some (HttpsError NotFound ''Vendor not found'' None))), s)
      | Some vd \<Rightarrow>
         (case referrals s vid of
            None \<Rightarrow>
              (Inr (), s\<lparr>referrals := (referrals s)(vid \<mapsto>
                \<lparr>ref_vendorId = vid,
                 storeName = vendorName vd,
                 vendorLogoUrl = (case logoUrl vd of None \<Rightarrow> [] | Some u \<Rightarrow> u),
                 totalReferralPoints = 10,
                 weeklyReferralPoints = 10,
                 referralCode = (case vendorReferralCode vd of None \<Rightarrow> [] | Some c \<Rightarrow> c),
                 referredCustomersCount = 1,
                 successfulReferralsCount = 0,
                 referralHistory =
                   [\<lparr>referredCustomerId = customer, pointsEarned = 10, date = now clock,
                     rh_orderId = None\<rparr>],
                 lastReferralUpdate = now clock,
                 isActive = True,
                 totalRewardsClaimed = 0,
                 lastLeaderboardPosition = 0,
                 totalFeaturedSpots = 0\<rparr>)\<rparr>)
          | Some r \<Rightarrow>
              (Inr (), s\<lparr>referrals := (referrals s)(vid \<mapsto>
                 r\<lparr>totalReferralPoints := totalReferralPoints r + 10,
                    weeklyReferralPoints := weeklyReferralPoints r + 10,
                    referredCustomersCount := referredCustomersCount r + 1,
                    referralHistory := referralHistory r @
                      [\<lparr>referredCustomerId = customer, pointsEarned = 10, date = now clock,
                        rh_orderId = None\<rparr>],
                    lastReferralUpdate := now clock,
                    isActive := True\<rparr>)\<rparr>)))"
  using assms
  by (simp add: addReferralForVendor_def addReferralForVendor_tx_def runTransaction_def
        catch_def tx_simps Let_def split: option.splits)

text \<open>What a purchase returns and writes when the vendor has a record.\<close>

lemma purchase_run:
  assumes "referrals s vid = Some r" and "vid \<noteq> []" and "customer \<noteq> []" and "oid \<noteq> []"
  shows "updateReferralPointsOnPurchase clock vid customer oid s =
     (if customer \<in> referredCustomerId ` set (referralHistory r)
      then (Inr (), s\<lparr>referrals := (referrals s)(vid \<mapsto>
              r\<lparr>totalReferralPoints := totalReferralPoints r + 40,
                 weeklyReferralPoints := weeklyReferralPoints r + 40,
                 successfulReferralsCount := successfulReferralsCount r + 1,
                 referralHistory := referralHistory r @
                   [\<lparr>referredCustomerId = customer, pointsEarned = 40, date = now clock,
                     rh_orderId = Some oid\<rparr>],
                 lastReferralUpdate := now clock\<rparr>)\<rparr>)
      else (Inl (HttpsError Internal ''Failed to update referral points''
                   (Some (HttpsError FailedPrecondition
                            ''Customer was not referred by this vendor'' None))), s))"
  using assms
  by (auto simp add: updateReferralPointsOnPurchase_def updateReferralPointsOnPurchase_tx_def
        runTransaction_def catch_def tx_simps Let_def list_ex_iff image_iff)

text \<open>
  Both handlers keep the records such that every customer of a history has a signup
  entry in it: only a signup can add the first entry of a customer.
\<close>

lemma addReferral_keeps_signupsFirst:
  assumes "\<forall>v r. referrals s v = Some r \<longrightarrow> signupsFirst r"
    and "addReferralForVendor clock vid customer s = (res, s1)"
  shows "\<forall>v r. referrals s1 v = Some r \<longrightarrow> signupsFirst r"
proof (cases "vid = [] \<or> customer = []")
  case True
  with assms show ?thesis by (auto simp add: addReferralForVendor_def)
next
  case False
  then have ne: "vid \<noteq> []" "customer \<noteq> []" by simp_all
  show ?thesis
    using assms unfolding addReferral_run [OF ne]
    by (auto simp add: signupsFirst_def signupEntry_def list_all_iff list_ex_iff
          split: option.splits if_splits)
qed

lemma purchase_keeps_signupsFirst:
  assumes "\<forall>v r. referrals s v = Some r \<longrightarrow> signupsFirst r"
    and "updateReferralPointsOnPurchase clock vid customer oid s = (res, s1)"
  shows "\<forall>v r. referrals s1 v = Some r \<longrightarrow> signupsFirst r"
proof (cases "vid = [] \<or> customer = [] \<or> oid = []")
  case True
  with assms show ?thesis by (auto simp add: updateReferralPointsOnPurchase_def)
next
  case False
  then have ne: "vid \<noteq> []" "customer \<noteq> []" "oid \<noteq> []" by simp_all
  show ?thesis
  proof (cases "referrals s vid")
    case None
    with assms ne show ?thesis
      by (auto simp add: updateReferralPointsOnPurchase_def updateReferralPointsOnPurchase_tx_def
            runTransaction_def catch_def tx_simps)
  next
    case (Some r)
    show ?thesis
      using assms Some unfolding purchase_run [OF Some ne]
      by (fastforce simp add: signupsFirst_def signupEntry_def list_all_iff list_ex_iff image_iff
            split: if_splits)
  qed
qed

lemma purchase_needs_signup:
  assumes "referrals s vid = Some r" and "signupsFirst r"
    and "updateReferralPointsOnPurchase clock vid customer oid s = (Inr (), s1)"
  shows "list_ex (signupEntry customer) (referralHistory r)"
proof -
  have ne: "vid \<noteq> []" "customer \<noteq> []" "oid \<noteq> []"
    using assms(3) by (auto simp add: updateReferralPointsOnPurchase_def split: if_splits)
  have "customer \<in> referredCustomerId ` set (referralHistory r)"
    using assms(3) unfolding purchase_run [OF assms(1) ne] by (simp split: if_splits)
  then show ?thesis
    using assms(2) by (auto simp add: signupsFirst_def list_all_iff list_ex_iff)
qed

text \<open>
  What the two handlers do. For a vendor without a referral record, the first signup of
  a customer creates the record with 10 total and 10 weekly points, and a purchase of
  that customer directly after it succeeds and brings both to 50. In any store where
  the vendor has a record, a purchase adds 40 to both when the history of the record
  has an entry for that customer; when it has none, the purchase changes nothing and
  throws \<open>internal\<close> ``Failed to update referral points'', with the \<open>failed-precondition\<close>
  error ``Customer was not referred by this vendor'' as details. On the records that the
  two handlers build (\<open>signupsFirst\<close>), a purchase succeeds only if the history has the
  signup entry of that customer.
\<close>

lemma referral_accrual:
  assumes "vendors s vid = Some vd" and "referrals s vid = None"
    and "vid \<noteq> []" and "customer \<noteq> []" and "oid \<noteq> []"
  shows "(\<exists>s1 r1. addReferralForVendor clock vid customer s = (Inr (), s1)
            \<and> referrals s1 vid = Some r1
            \<and> totalReferralPoints r1 = 10 \<and> weeklyReferralPoints r1 = 10
            \<and> (\<exists>s2 r2. updateReferralPointsOnPurchase clock' vid customer oid s1 = (Inr (), s2)
                  \<and> referrals s2 vid = Some r2
                  \<and> totalReferralPoints r2 = 50 \<and> weeklyReferralPoints r2 = 50))
       \<and> (\<forall>s' r. referrals s' vid = Some r \<longrightarrow>
            (if customer \<in> referredCustomerId ` set (referralHistory r)
             then \<exists>s2 r2. updateReferralPointsOnPurchase clock' vid customer oid s' = (Inr (), s2)
                    \<and> referrals s2 vid = Some r2
                    \<and> totalReferralPoints r2 = totalReferralPoints r + 40
                    \<and> weeklyReferralPoints r2 = weeklyReferralPoints r + 40
             else updateReferralPointsOnPurchase clock' vid customer oid s' =
                    (Inl (HttpsError Internal ''Failed to update referral points''
                       (Some (HttpsError FailedPrecondition
                                ''Customer was not referred by this vendor'' None))), s')))
       \<and> (\<forall>s' r s2. referrals s' vid = Some r \<and> signupsFirst r
              \<and> updateReferralPointsOnPurchase clock' vid customer oid s' = (Inr (), s2)
            \<longrightarrow> list_ex (signupEntry customer) (referralHistory r))"
proof -
  have general: "\<forall>s' r. referrals s' vid = Some r \<longrightarrow>
            (if customer \<in> referredCustomerId ` set (referralHistory r)
             then \<exists>s2 r2. updateReferralPointsOnPurchase clock' vid customer oid s' = (Inr (), s2)
                    \<and> referrals s2 vid = Some r2
                    \<and> totalReferralPoints r2 = totalReferralPoints r + 40
                    \<and> weeklyReferralPoints r2 = weeklyReferralPoints r + 40
             else updateReferralPointsOnPurchase clock' vid customer oid s' =
                    (Inl (HttpsError Internal ''Failed to update referral points''
                       (Some (HttpsError FailedPrecondition
                                ''Customer was not referred by this vendor'' None))), s'))"
    using assms(3,4,5) by (simp add: purchase_run)
  have signup: "\<exists>s1 r1. addReferralForVendor clock vid customer s = (Inr (), s1)
            \<and> referrals s1 vid = Some r1
            \<and> totalReferralPoints r1 = 10 \<and> weeklyReferralPoints r1 = 10
            \<and> customer \<in> referredCustomerId ` set (referralHistory r1)"
    using assms(1,2) by (simp add: addReferral_run [OF assms(3,4)])
  then obtain s1 r1 where s1: "addReferralForVendor clock vid customer s = (Inr (), s1)"
      "referrals s1 vid = Some r1" "totalReferralPoints r1 = 10" "weeklyReferralPoints r1 = 10"
      "customer \<in> referredCustomerId ` set (referralHistory r1)"
    by blast
  from general s1(2,5) obtain s2 r2 where s2:
      "updateReferralPointsOnPurchase clock' vid customer oid s1 = (Inr (), s2)"
      "referrals s2 vid = Some r2"
      "totalReferralPoints r2 = totalReferralPoints r1 + 40"
      "weeklyReferralPoints r2 = weeklyReferralPoints r1 + 40"
    by (metis (no_types, lifting))
  have sequence: "\<exists>s1 r1. addReferralForVendor clock vid customer s = (Inr (), s1)
            \<and> referrals s1 vid = Some r1
            \<and> totalReferralPoints r1 = 10 \<and> weeklyReferralPoints r1 = 10
            \<and> (\<exists>s2 r2. updateReferralPointsOnPurchase clock' vid customer oid s1 = (Inr (), s2)
                  \<and> referrals s2 vid = Some r2
                  \<and> totalReferralPoints r2 = 50 \<and> weeklyReferralPoints r2 = 50)"
    using s1 s2 by (intro exI conjI) auto
  have only_if: "\<forall>s' r s2. referrals s' vid = Some r \<and> signupsFirst r
              \<and> updateReferralPointsOnPurchase clock' vid customer oid s' = (Inr (), s2)
            \<longrightarrow> list_ex (signupEntry customer) (referralHistory r)"
    using purchase_needs_signup by blast
  show ?thesis
    using sequence general only_if by (intro conjI)
qed

text \<open>
  C9. The first signup of a customer with a vendor that has no referral record must
  create the record with 10 total and 10 weekly points, a following purchase of that
  customer must bring both to 50, and a purchase of a customer without a signup entry
  must fail as not referred. On the scenario the signup gives 10 and 10 and the
  purchase of the same customer gives 50 and 50; the purchase of a customer who never
  signed up fails and changes nothing, but the error it raises has the code \<open>internal\<close>:
  the transaction throws \<open>failed-precondition\<close> ``Customer was not referred by this
  vendor'', the catch of the handler throws \<open>internal\<close> ``Failed to update referral
  points'' in its place and keeps the first only as details.
\<close>

theorem referral_purchase_thrown_internal:
  "addReferralForVendor (clockAt 1000) ''vendor1'' ''customer1'' store0 = (Inr (), storeR)
   \<and> map_option totalReferralPoints (referrals storeR ''vendor1'') = Some 10
   \<and> map_option weeklyReferralPoints (referrals storeR ''vendor1'') = Some 10
   \<and> map_option signupsFirst (referrals storeR ''vendor1'') = Some True
   \<and> map_option (\<lambda>r. list_ex (signupEntry ''customer1'') (referralHistory r))
       (referrals storeR ''vendor1'') = Some True
   \<and> fst (updateReferralPointsOnPurchase (clockAt 2000) ''vendor1'' ''customer1'' ''order1''
            storeR) = Inr ()
   \<and> map_option totalReferralPoints
       (referrals (snd (updateReferralPointsOnPurchase (clockAt 2000) ''vendor1'' ''customer1''
                          ''order1'' storeR)) ''vendor1'') = Some 50
   \<and> map_option weeklyReferralPoints
       (referrals (snd (updateReferralPointsOnPurchase (clockAt 2000) ''vendor1'' ''customer1''
                          ''order1'' storeR)) ''vendor1'') = Some 50
   \<and> updateReferralPointsOnPurchase (clockAt 2000) ''vendor1'' ''customer2'' ''order2'' storeR =
       (Inl (HttpsError Internal ''Failed to update referral points''
          (Some (HttpsError FailedPrecondition
                   ''Customer was not referred by this vendor'' None))), storeR)
   \<and> thrown_code (updateReferralPointsOnPurchase (clockAt 2000) ''vendor1'' ''customer2''
                    ''order2'' storeR) = Some Internal
   \<and> thrown_code (updateReferralPointsOnPurchase (clockAt 2000) ''vendor1'' ''customer2''
                    ''order2'' storeR) \<noteq> Some FailedPrecondition"
proof -
  have vd: "vendors store0 ''vendor1''
      = Some \<lparr>vendorName = ''Vendor One'', logoUrl = None, vendorReferralCode = Some ''V1''\<rparr>"
    and none: "referrals store0 ''vendor1'' = None"
    by (simp_all add: store0_def)
  have ne: "''vendor1'' \<noteq> []" "''customer1'' \<noteq> []" "''order1'' \<noteq> []" "''customer2'' \<noteq> []"
      "''order2'' \<noteq> []"
    by simp_all
  note first = referral_accrual [OF vd none ne(1,2,3), where clock = "clockAt 1000"
      and clock' = "clockAt 2000"]
  note other = referral_accrual [OF vd none ne(1,4,5), where clock = "clockAt 1000"
      and clock' = "clockAt 2000"]
  obtain r where r: "referrals storeR ''vendor1'' = Some r"
      "referralHistory r = [\<lparr>referredCustomerId = ''customer1'', pointsEarned = 10,
         date = 1000, rh_orderId = None\<rparr>]"
    by (simp add: scenario_defs handler_defs)
  have inv: "signupsFirst r"
    using r(2) by (simp add: signupsFirst_def signupEntry_def)
  have stranger: "updateReferralPointsOnPurchase (clockAt 2000) ''vendor1'' ''customer2''
      ''order2'' storeR =
       (Inl (HttpsError Internal ''Failed to update referral points''
          (Some (HttpsError FailedPrecondition
                   ''Customer was not referred by this vendor'' None))), storeR)"
    using other r by auto
  obtain s2 r2 where s2:
      "updateReferralPointsOnPurchase (clockAt 2000) ''vendor1'' ''customer1'' ''order1'' storeR
         = (Inr (), s2)"
      "referrals s2 ''vendor1'' = Some r2" "totalReferralPoints r2 = 50"
      "weeklyReferralPoints r2 = 50"
    using first scenario_signed_up by auto
  have entry: "list_ex (signupEntry ''customer1'') (referralHistory r)"
    using first r(1) inv s2(1) by blast
  show ?thesis
    using first scenario_signed_up stranger r(1) inv entry s2
    by (auto simp add: thrown_code_def)
qed

subsection \<open>The gateway and the transaction\<close>

lemma approveWithdrawal_events_ordered:
  "readsPostsWrites (approveVendorWithdrawal_events env gw clock wid isLive s)"
  by (auto simp add: approveVendorWithdrawal_events_def transaction_events_def
        approveVendorWithdrawal_tx_def tx_simps Let_def readsPostsWrites_def
        split: option.splits sum.splits)

lemma approveRefund_events_ordered:
  "readsPostsWrites (approveRefundRequest_events env gw clock oid uid amount isLive s)"
  by (auto simp add: approveRefundRequest_events_def transaction_events_def
        approveRefundRequest_tx_def tx_simps Let_def readsPostsWrites_def
        split: option.splits sum.splits)

lemma phases_post: "phases p es \<Longrightarrow> HttpPost u \<in> set es \<Longrightarrow> postWhile True es"
  by (induction p es rule: phases.induct) auto

lemma ordered_post_inside:
  "readsPostsWrites es \<Longrightarrow> HttpPost u \<in> set es \<Longrightarrow> postWhileOpen es"
  by (cases es) (auto simp add: readsPostsWrites_def postWhileOpen_def dest: phases_post)

lemma scenario_withdrawal_events:
  "approveVendorWithdrawal_events env0 gateway0 (clockAt 5000) ''w1'' False storeW =
     [TxBegin, TxGet (WithdrawalRef ''w1''), TxGet (UserRef ''vendor1''),
      HttpPost ''https://api.paystack.co/transferrecipient'',
      HttpPost ''https://api.paystack.co/transfer'',
      TxPut (WithdrawalRef ''w1''), TxPut (UserRef ''vendor1''), TxCommit]"
  by (simp add: approveVendorWithdrawal_events_def transaction_events_def scenario_defs
        handler_defs)

lemma scenario_refund_events:
  "approveRefundRequest_events env0 gateway0 (clockAt 5000) ''order1'' ''customer1'' 5875 False
     store4 =
     [TxBegin, TxGet (RefundRef ''order1''), TxGet (UserRef ''customer1''),
      TxGet (UserRef ''vendor1''),
      HttpPost ''https://api.paystack.co/transferrecipient'',
      HttpPost ''https://api.paystack.co/transfer'',
      TxPut (RefundRef ''order1''), TxPut (UserRef ''customer1''), TxPut (UserRef ''vendor1''),
      TxCommit]"
  by (simp add: approveRefundRequest_events_def transaction_events_def scenario_defs
        handler_defs)

text \<open>
  C6, as the code has it. In the approval of a withdrawal and in the approval of a
  refund, the requests to the payout gateway are made by the update function of the
  transaction: on every run the events are the opening of the transaction, the reads,
  then the requests to the gateway, then the buffered writes, then the commit or the
  rollback. So the requests come after all the reads and before all the writes, and
  whenever a request is made it is made while the transaction is open.
\<close>

theorem gateway_called_between_reads_and_writes:
  "readsPostsWrites (approveVendorWithdrawal_events env gw clock wid isLive s)
   \<and> readsPostsWrites (approveRefundRequest_events env gw clock oid uid amount isLive s)
   \<and> (HttpPost u \<in> set (approveVendorWithdrawal_events env gw clock wid isLive s) \<longrightarrow>
        postWhileOpen (approveVendorWithdrawal_events env gw clock wid isLive s))
   \<and> (HttpPost u \<in> set (approveRefundRequest_events env gw clock oid uid amount isLive s) \<longrightarrow>
        postWhileOpen (approveRefundRequest_events env gw clock oid uid amount isLive s))"
  using approveWithdrawal_events_ordered [of env gw clock wid isLive s]
    approveRefund_events_ordered [of env gw clock oid uid amount isLive s]
  by (auto dest: ordered_post_inside)

theorem gateway_called_between_reads_and_writes_witness:
  "HttpPost ''https://api.paystack.co/transfer''
     \<in> set (approveVendorWithdrawal_events env0 gateway0 (clockAt 5000) ''w1'' False storeW)
   \<and> HttpPost ''https://api.paystack.co/transfer''
     \<in> set (approveRefundRequest_events env0 gateway0 (clockAt 5000) ''order1'' ''customer1''
               5875 False store4)
   \<and> readsPostsWrites (approveVendorWithdrawal_events env0 gateway0 (clockAt 5000) ''w1'' False
                         storeW)
   \<and> readsPostsWrites (approveRefundRequest_events env0 gateway0 (clockAt 5000) ''order1''
                         ''customer1'' 5875 False store4)
   \<and> postWhileOpen (approveVendorWithdrawal_events env0 gateway0 (clockAt 5000) ''w1'' False
                      storeW)
   \<and> postWhileOpen (approveRefundRequest_events env0 gateway0 (clockAt 5000) ''order1''
                      ''customer1'' 5875 False store4)"
proof -
  have w: "HttpPost ''https://api.paystack.co/transfer''
     \<in> set (approveVendorWithdrawal_events env0 gateway0 (clockAt 5000) ''w1'' False storeW)"
    by (simp add: scenario_withdrawal_events)
  have r: "HttpPost ''https://api.paystack.co/transfer''
     \<in> set (approveRefundRequest_events env0 gateway0 (clockAt 5000) ''order1'' ''customer1''
               5875 False store4)"
    by (simp add: scenario_refund_events)
  show ?thesis
    using w r
      gateway_called_between_reads_and_writes [where env = env0 and gw = gateway0
        and clock = "clockAt 5000" and wid = "''w1''" and isLive = False and s = storeW
        and oid = "''order1''" and uid = "''customer1''" and amount = 5875
        and u = "''https://api.paystack.co/transfer''"]
      gateway_called_between_reads_and_writes [where env = env0 and gw = gateway0
        and clock = "clockAt 5000" and wid = "''w1''" and isLive = False and s = store4
        and oid = "''order1''" and uid = "''customer1''" and amount = 5875
        and u = "''https://api.paystack.co/transfer''"]
    by simp
qed

text \<open>
  The claim as the specification states it fails: on the approval of the withdrawal of
  the scenario, both requests to the gateway are made between the opening of the
  transaction and its commit.
\<close>

theorem gateway_outside_transaction_counterexample:
  "approveVendorWithdrawal_events env0 gateway0 (clockAt 5000) ''w1'' False storeW =
     [TxBegin, TxGet (WithdrawalRef ''w1''), TxGet (UserRef ''vendor1''),
      HttpPost ''https://api.paystack.co/transferrecipient'',
      HttpPost ''https://api.paystack.co/transfer'',
      TxPut (WithdrawalRef ''w1''), TxPut (UserRef ''vendor1''), TxCommit]
   \<and> postWhileOpen (approveVendorWithdrawal_events env0 gateway0 (clockAt 5000) ''w1'' False
                      storeW)
   \<and> fst (approveVendorWithdrawal env0 gateway0 (clockAt 5000) ''w1'' False storeW) = Inr ()"
proof -
  have ok: "fst (approveVendorWithdrawal env0 gateway0 (clockAt 5000) ''w1'' False storeW)
      = Inr ()"
    by (simp add: scenario_defs handler_defs)
  show ?thesis
    using ok by (simp add: scenario_withdrawal_events postWhileOpen_def)
qed

end
